theory Spec2Isabelle
  imports Complex_Main "HOL-Library.AList"
begin

section \<open>JavaScript values used by the ingestion code\<close>

text \<open>
  A JavaScript string is the list of its UTF-16 code units. The strings modelled here are
  those whose code units are all below 256 (the Latin-1 range), one \<open>char\<close> a code unit;
  a string with another code unit has no model. On these strings \<open>toLowerCase\<close> maps
  \<open>A\<close>..\<open>Z\<close> and the capital letters U+00C0..U+00DE other than the multiplication
  sign U+00D7 to the letter 32 places on, and leaves every other code unit as it is;
  \<open>trim\<close> strips tab, line feed, vertical tab, form feed, carriage return, space and
  the no-break space U+00A0, the white space and line terminators of the range.
\<close>

definition toLowerCase_char :: "char \<Rightarrow> char" where
  "toLowerCase_char c =
     (case map_of (zip (''ABCDEFGHIJKLMNOPQRSTUVWXYZ''
                         @ [CHR 0xC0, CHR 0xC1, CHR 0xC2, CHR 0xC3, CHR 0xC4, CHR 0xC5, CHR 0xC6,
                            CHR 0xC7, CHR 0xC8, CHR 0xC9, CHR 0xCA, CHR 0xCB, CHR 0xCC, CHR 0xCD,
                            CHR 0xCE, CHR 0xCF, CHR 0xD0, CHR 0xD1, CHR 0xD2, CHR 0xD3, CHR 0xD4,
                            CHR 0xD5, CHR 0xD6, CHR 0xD8, CHR 0xD9, CHR 0xDA, CHR 0xDB, CHR 0xDC,
                            CHR 0xDD, CHR 0xDE])
                       (''abcdefghijklmnopqrstuvwxyz''
                         @ [CHR 0xE0, CHR 0xE1, CHR 0xE2, CHR 0xE3, CHR 0xE4, CHR 0xE5, CHR 0xE6,
                            CHR 0xE7, CHR 0xE8, CHR 0xE9, CHR 0xEA, CHR 0xEB, CHR 0xEC, CHR 0xED,
                            CHR 0xEE, CHR 0xEF, CHR 0xF0, CHR 0xF1, CHR 0xF2, CHR 0xF3, CHR 0xF4,
                            CHR 0xF5, CHR 0xF6, CHR 0xF8, CHR 0xF9, CHR 0xFA, CHR 0xFB, CHR 0xFC,
                            CHR 0xFD, CHR 0xFE])) c of
        Some d \<Rightarrow> d
      | None \<Rightarrow> c)"

definition toLowerCase :: "string \<Rightarrow> string" where
  "toLowerCase s = map toLowerCase_char s"

definition is_js_space :: "char \<Rightarrow> bool" where
  "is_js_space c =
     (c \<in> {CHR '' '', CHR 0x09, CHR 0x0A, CHR 0x0B, CHR 0x0C, CHR 0x0D, CHR 0xA0})"

definition trim :: "string \<Rightarrow> string" where
  "trim s = rev (dropWhile is_js_space (rev (dropWhile is_js_space s)))"

section \<open>PII hashing\<close>

text \<open>
  The digests of Node's \<open>crypto\<close> module are kept symbolic: \<open>Sha256Hex m\<close> stands for
  the hex SHA-256 digest of \<open>m\<close>, \<open>HmacSha256Hex k m\<close> for the hex HMAC-SHA-256 of
  \<open>m\<close> under the key \<open>k\<close>, and \<open>Substring d i j\<close> for \<open>d.substring(i, j)\<close>.
\<close>

datatype hexdigest = Sha256Hex string | HmacSha256Hex string string

datatype pii_hash = Substring hexdigest nat nat

text \<open>\<open>hashPii\<close> of \<open>lib/shopify.ts\<close>, the one the adapters import. \<open>None\<close> is
  \<open>null\<close>/\<open>undefined\<close>; \<open>!value\<close> holds of \<open>null\<close> and of the empty string.\<close>

definition hashPii :: "string option \<Rightarrow> pii_hash option" where
  "hashPii v =
     (case v of
        None \<Rightarrow> None
      | Some s \<Rightarrow>
          if s = [] then None
          else (let normalized = trim (toLowerCase s)
                in Some (Substring (Sha256Hex normalized) 0 32)))"

text \<open>\<open>hashPii\<close> of \<open>lib/security.ts\<close>; \<open>PII_HASH_SECRET\<close> is the environment
  variable, with the source's default.\<close>

definition PII_HASH_SECRET :: "string option \<Rightarrow> string" where
  "PII_HASH_SECRET env_value =
     (case env_value of
        None \<Rightarrow> ''change-me-in-production''
      | Some s \<Rightarrow> if s = [] then ''change-me-in-production'' else s)"

definition security_hashPii :: "string option \<Rightarrow> string option \<Rightarrow> pii_hash option" where
  "security_hashPii env_value v =
     (case v of
        None \<Rightarrow> None
      | Some s \<Rightarrow>
          if s = [] then None
          else Some (Substring (HmacSha256Hex (PII_HASH_SECRET env_value) (trim (toLowerCase s))) 0 16))"

text \<open>\<open>generateCustomerHash\<close>: prefer the email, fall back to the phone.\<close>

definition generateCustomerHash :: "string option \<Rightarrow> string option \<Rightarrow> pii_hash option" where
  "generateCustomerHash email phone =
     (if email \<noteq> None \<and> email \<noteq> Some [] then hashPii email
      else if phone \<noteq> None \<and> phone \<noteq> Some [] then hashPii phone
      else None)"


section \<open>Canonical records and source records\<close>

text \<open>
  JavaScript numbers are idealised as exact rationals, and a timestamp is the instant
  its ISO string denotes. A money amount that the source carries as a decimal string
  (Shopify's \<open>Money\<close> scalar) is the decimal the string denotes, which is what
  \<open>parseFloat\<close> reads from it; an amount in integer minor units (Square) is an
  \<open>int\<close>.
\<close>

type_synonym time = int

datatype json = JNull | JBool bool | JNum rat | JStr string | JArr "json list"
  | JObj "(string \<times> json) list"

definition opt_json :: "('a \<Rightarrow> json) \<Rightarrow> 'a option \<Rightarrow> json" where
  "opt_json f v = (case v of None \<Rightarrow> JNull | Some x \<Rightarrow> f x)"

text \<open>A property whose value is \<open>undefined\<close> is left out of the stored JSON.\<close>

definition opt_prop :: "string \<Rightarrow> ('a \<Rightarrow> json) \<Rightarrow> 'a option \<Rightarrow> (string \<times> json) list" where
  "opt_prop k f v = (case v of None \<Rightarrow> [] | Some x \<Rightarrow> [(k, f x)])"

text \<open>\<open>s || undefined\<close> and \<open>s || null\<close> on an optional string: the empty string is falsy.\<close>

definition truthy_string :: "string option \<Rightarrow> string option" where
  "truthy_string s = (case s of None \<Rightarrow> None | Some t \<Rightarrow> if t = [] then None else Some t)"

record NormalizedLineItem =
  li_externalId :: string
  li_sku :: "string option"
  li_productTitle :: string
  li_category :: "string option"
  li_qty :: int
  li_lineTotal :: rat

record CustomerIdentity =
  ci_shopifyCustomerId :: "string option"
  ci_squareCustomerId :: "string option"
  ci_anyroadGuestId :: "string option"
  ci_email :: "string option"
  ci_phone :: "string option"

record NormalizedOrder =
  externalId :: string
  channelId :: string
  locationId :: "string option"
  createdAt :: time
  updatedAt :: time
  customerHash :: "pii_hash option"
  grossTotal :: rat
  netTotal :: rat
  taxTotal :: rat
  discountTotal :: rat
  refundsTotal :: rat
  tendersJson :: json
  rawJson :: json
  lineItems :: "NormalizedLineItem list"
  customerIdentity :: "CustomerIdentity option"

subsection \<open>Shopify (\<open>lib/shopify.ts\<close>)\<close>

record ShopifyCustomer =
  sc_id :: string
  sc_email :: "string option"
  sc_phone :: "string option"

record ShopifyProduct =
  sp_id :: string
  sp_productType :: "string option"

record ShopifyLineItem =
  sl_id :: string
  sl_name :: string
  sl_sku :: "string option"
  sl_quantity :: int
  sl_originalTotal :: rat
  sl_product :: "ShopifyProduct option"

record ShopifyTransaction =
  st_kind :: string
  st_status :: string
  st_amount :: rat
  st_gateway :: string

record ShopifyOrder =
  so_id :: string
  so_name :: "string option"
  so_createdAt :: time
  so_updatedAt :: time
  so_totalPrice :: rat
  so_currentSubtotalPrice :: rat
  so_totalDiscounts :: rat
  so_totalTax :: rat
  so_totalRefunded :: rat
  so_customer :: "ShopifyCustomer option"
  so_lineItems :: "ShopifyLineItem list"
  so_transactions :: "ShopifyTransaction list"

text \<open>The order object as JSON (what \<open>rawJson: order\<close> stores).\<close>

definition shopMoney_json :: "rat \<Rightarrow> json" where
  "shopMoney_json a = JObj [(''shopMoney'', JObj [(''amount'', JNum a)])]"

definition ShopifyLineItem_json :: "ShopifyLineItem \<Rightarrow> json" where
  "ShopifyLineItem_json i =
     JObj [(''node'', JObj
       [(''id'', JStr (sl_id i)), (''name'', JStr (sl_name i)),
        (''sku'', opt_json JStr (sl_sku i)), (''quantity'', JNum (of_int (sl_quantity i))),
        (''originalTotalSet'', shopMoney_json (sl_originalTotal i)),
        (''product'', opt_json (\<lambda>p. JObj [(''id'', JStr (sp_id p)),
            (''productType'', opt_json JStr (sp_productType p))]) (sl_product i))])]"

definition ShopifyTransaction_json :: "ShopifyTransaction \<Rightarrow> json" where
  "ShopifyTransaction_json t =
     JObj [(''node'', JObj
       [(''kind'', JStr (st_kind t)), (''status'', JStr (st_status t)),
        (''amountSet'', shopMoney_json (st_amount t)), (''gateway'', JStr (st_gateway t))])]"

definition ShopifyOrder_json :: "ShopifyOrder \<Rightarrow> json" where
  "ShopifyOrder_json order =
     JObj [(''id'', JStr (so_id order)), (''name'', opt_json JStr (so_name order)),
       (''createdAt'', JNum (of_int (so_createdAt order))),
       (''updatedAt'', JNum (of_int (so_updatedAt order))),
       (''totalPriceSet'', shopMoney_json (so_totalPrice order)),
       (''currentSubtotalPriceSet'', shopMoney_json (so_currentSubtotalPrice order)),
       (''totalDiscountsSet'', shopMoney_json (so_totalDiscounts order)),
       (''totalTaxSet'', shopMoney_json (so_totalTax order)),
       (''totalRefundedSet'', shopMoney_json (so_totalRefunded order)),
       (''customer'', opt_json (\<lambda>c. JObj [(''id'', JStr (sc_id c)),
           (''email'', opt_json JStr (sc_email c)), (''phone'', opt_json JStr (sc_phone c))])
          (so_customer order)),
       (''lineItems'', JObj [(''edges'', JArr (map ShopifyLineItem_json (so_lineItems order)))]),
       (''transactions'',
          JObj [(''edges'', JArr (map ShopifyTransaction_json (so_transactions order)))])]"

text \<open>\<open>gid.split('/')\<close>.\<close>

fun split_on :: "char \<Rightarrow> string \<Rightarrow> string list" where
  "split_on c [] = [[]]"
| "split_on c (x # xs) =
     (if x = c then [] # split_on c xs
      else (case split_on c xs of [] \<Rightarrow> [[x]] | p # ps \<Rightarrow> (x # p) # ps))"

text \<open>\<open>parts[i]\<close>: \<open>undefined\<close> out of range.\<close>

definition at_index :: "'a list \<Rightarrow> nat \<Rightarrow> 'a option" where
  "at_index xs i = (if i < length xs then Some (xs ! i) else None)"

definition extractShopifyId :: "string \<Rightarrow> string" where
  "extractShopifyId gid =
     (let parts = split_on (CHR ''/'') gid;
          type = (case truthy_string (map_option toLowerCase (at_index parts 3)) of
                    Some t \<Rightarrow> t | None \<Rightarrow> ''unknown'');
          ident = (case truthy_string (at_index parts 4) of Some i \<Rightarrow> i | None \<Rightarrow> gid)
      in ''shopify_'' @ type @ ''_'' @ ident)"

definition shopify_tenders :: "ShopifyTransaction list \<Rightarrow> json" where
  "shopify_tenders txns =
     JArr (map (\<lambda>e. JObj [(''gateway'', JStr (st_gateway e)), (''amount'', JNum (st_amount e))])
            (filter (\<lambda>e. st_kind e = ''SALE'' \<and> st_status e = ''SUCCESS'') txns))"

definition shopify_lineItem :: "ShopifyLineItem \<Rightarrow> NormalizedLineItem" where
  "shopify_lineItem item =
     \<lparr> li_externalId = extractShopifyId (sl_id item),
       li_sku = sl_sku item,
       li_productTitle = sl_name item,
       li_category = (case sl_product item of
                        None \<Rightarrow> None | Some p \<Rightarrow> truthy_string (sp_productType p)),
       li_qty = sl_quantity item,
       li_lineTotal = sl_originalTotal item \<rparr>"

definition normalizeOrder :: "ShopifyOrder \<Rightarrow> NormalizedOrder" where
  "normalizeOrder order =
     (let gross = so_totalPrice order;
          discount = so_totalDiscounts order;
          tax = so_totalTax order;
          refunds = so_totalRefunded order;
          net = gross - refunds
      in \<lparr> externalId = extractShopifyId (so_id order),
           channelId = ''shopify'',
           locationId = Some ''online-shopify'',
           createdAt = so_createdAt order,
           updatedAt = so_updatedAt order,
           customerHash = (case so_customer order of
                             None \<Rightarrow> None
                           | Some c \<Rightarrow> generateCustomerHash (sc_email c) (sc_phone c)),
           grossTotal = gross,
           netTotal = net,
           taxTotal = tax,
           discountTotal = discount,
           refundsTotal = refunds,
           tendersJson = shopify_tenders (so_transactions order),
           rawJson = ShopifyOrder_json order,
           lineItems = map shopify_lineItem (so_lineItems order),
           customerIdentity = (case so_customer order of
                                 None \<Rightarrow> None
                               | Some c \<Rightarrow>
                                   Some \<lparr> ci_shopifyCustomerId = Some (extractShopifyId (sc_id c)),
                                          ci_squareCustomerId = None,
                                          ci_anyroadGuestId = None,
                                          ci_email = truthy_string (sc_email c),
                                          ci_phone = truthy_string (sc_phone c) \<rparr>) \<rparr>)"

definition normalizeOrders :: "ShopifyOrder list \<Rightarrow> NormalizedOrder list" where
  "normalizeOrders orders = map normalizeOrder orders"

subsection \<open>Square (\<open>lib/square.ts\<close>)\<close>

text \<open>
  The SDK's order and payment objects have more properties than the interfaces
  \<open>SquareOrder\<close> and \<open>SquarePayment\<close> name; each record holds the properties the code
  reads and, in its \<open>json\<close> field, the object itself as it is stored in \<open>rawJson\<close>.
  Money is the \<open>amount\<close> in cents. \<open>qo_quantity\<close> is the integer that \<open>parseInt\<close>
  reads from the quantity string.
\<close>

record SquareLineItem =
  ql_uid :: string
  ql_name :: string
  ql_quantity :: int
  ql_catalogObjectId :: "string option"
  ql_variationName :: "string option"
  ql_totalMoney :: int

record SquareOrder =
  qo_id :: string
  qo_locationId :: string
  qo_createdAt :: time
  qo_updatedAt :: time
  qo_totalMoney :: int
  qo_totalTaxMoney :: "int option"
  qo_totalDiscountMoney :: "int option"
  qo_lineItems :: "SquareLineItem list option"
  qo_json :: json

record SquareFee =
  qf_amountMoney :: int
  qf_type :: string

record SquarePayment =
  qp_id :: string
  qp_orderId :: "string option"
  qp_amountMoney :: int
  qp_status :: string
  qp_sourceType :: "string option"
  qp_cardBrand :: "string option"
  qp_last4 :: "string option"
  qp_processingFee :: "SquareFee list option"
  qp_refundedMoney :: "int option"
  qp_buyerEmailAddress :: "string option"
  qp_json :: json

record PaymentData =
  pd_payments :: "SquarePayment list"
  pd_totalPaid :: rat
  pd_totalFees :: rat
  pd_totalRefunded :: rat

text \<open>\<open>Number(m.amount) / 100\<close>.\<close>

definition cents :: "int \<Rightarrow> rat" where
  "cents a = of_int a / 100"

definition payment_fees :: "SquarePayment \<Rightarrow> rat" where
  "payment_fees p =
     (case qp_processingFee p of
        None \<Rightarrow> 0
      | Some fs \<Rightarrow> foldl (\<lambda>sum fee. sum + cents (qf_amountMoney fee)) 0 fs)"

definition reconcile_step ::
  "(string \<times> PaymentData) list \<Rightarrow> SquarePayment \<Rightarrow> (string \<times> PaymentData) list" where
  "reconcile_step orderPayments payment =
     (case truthy_string (qp_orderId payment) of
        None \<Rightarrow> orderPayments
      | Some oid \<Rightarrow>
          (let existing = (case map_of orderPayments oid of
                             Some e \<Rightarrow> e
                           | None \<Rightarrow> \<lparr> pd_payments = [], pd_totalPaid = 0, pd_totalFees = 0,
                                        pd_totalRefunded = 0 \<rparr>);
               pushed = existing \<lparr> pd_payments := pd_payments existing @ [payment] \<rparr>;
               amount = cents (qp_amountMoney payment);
               refunded = (case qp_refundedMoney payment of None \<Rightarrow> 0 | Some r \<Rightarrow> cents r);
               fees = payment_fees payment;
               updated = (if qp_status payment = ''COMPLETED''
                          then pushed \<lparr> pd_totalPaid := pd_totalPaid pushed + amount,
                                        pd_totalFees := pd_totalFees pushed + fees,
                                        pd_totalRefunded := pd_totalRefunded pushed + refunded \<rparr>
                          else pushed)
           in AList.update oid updated orderPayments))"

text \<open>The \<open>orders\<close> argument is not read by the source either.\<close>

definition reconcilePaymentsToOrders ::
  "SquareOrder list \<Rightarrow> SquarePayment list \<Rightarrow> (string \<times> PaymentData) list" where
  "reconcilePaymentsToOrders orders payments = foldl reconcile_step [] payments"

definition square_tender :: "SquarePayment \<Rightarrow> json" where
  "square_tender p =
     JObj ([(''paymentId'', JStr (qp_id p)), (''status'', JStr (qp_status p))]
           @ opt_prop ''sourceType'' JStr (qp_sourceType p)
           @ [(''amount'', JNum (cents (qp_amountMoney p)))]
           @ opt_prop ''cardBrand'' JStr (qp_cardBrand p)
           @ opt_prop ''last4'' JStr (qp_last4 p)
           @ opt_prop ''processingFees''
               (\<lambda>fs. JArr (map (\<lambda>fee. JObj [(''type'', JStr (qf_type fee)),
                                              (''amount'', JNum (cents (qf_amountMoney fee)))]) fs))
               (qp_processingFee p))"

definition square_lineItem :: "SquareLineItem \<Rightarrow> NormalizedLineItem" where
  "square_lineItem item =
     \<lparr> li_externalId = ''square_lineitem_'' @ ql_uid item,
       li_sku = truthy_string (ql_catalogObjectId item),
       li_productTitle = (case truthy_string (ql_variationName item) of
                            Some v \<Rightarrow> ql_name item @ '' - '' @ v
                          | None \<Rightarrow> ql_name item),
       li_category = None,
       li_qty = ql_quantity item,
       li_lineTotal = cents (ql_totalMoney item) \<rparr>"

definition square_normalizeOrder :: "SquareOrder \<Rightarrow> PaymentData option \<Rightarrow> NormalizedOrder" where
  "square_normalizeOrder order paymentData =
     (let gross = cents (qo_totalMoney order);
          tax = (case qo_totalTaxMoney order of None \<Rightarrow> 0 | Some t \<Rightarrow> cents t);
          discount = (case qo_totalDiscountMoney order of None \<Rightarrow> 0 | Some d \<Rightarrow> cents d);
          refunds = (case paymentData of None \<Rightarrow> 0 | Some pd \<Rightarrow> pd_totalRefunded pd);
          net = gross - refunds;
          customerEmail = (case paymentData of
                             None \<Rightarrow> None
                           | Some pd \<Rightarrow>
                               (case find (\<lambda>p. truthy_string (qp_buyerEmailAddress p) \<noteq> None)
                                       (pd_payments pd) of
                                  None \<Rightarrow> None
                                | Some p \<Rightarrow> qp_buyerEmailAddress p))
      in \<lparr> externalId = ''square_order_'' @ qo_id order,
           channelId = ''square'',
           locationId = Some (''square_location_'' @ qo_locationId order),
           createdAt = qo_createdAt order,
           updatedAt = qo_updatedAt order,
           customerHash = (case customerEmail of None \<Rightarrow> None | Some e \<Rightarrow> hashPii (Some e)),
           grossTotal = gross,
           netTotal = net,
           taxTotal = tax,
           discountTotal = discount,
           refundsTotal = refunds,
           tendersJson = (case paymentData of
                            None \<Rightarrow> JArr []
                          | Some pd \<Rightarrow> JArr (map square_tender (pd_payments pd))),
           rawJson = JObj [(''order'', qo_json order),
                           (''payments'', (case paymentData of
                                             None \<Rightarrow> JArr []
                                           | Some pd \<Rightarrow> JArr (map qp_json (pd_payments pd)))),
                           (''fees'', JNum (case paymentData of
                                              None \<Rightarrow> 0 | Some pd \<Rightarrow> pd_totalFees pd))],
           lineItems = (case qo_lineItems order of
                          None \<Rightarrow> [] | Some items \<Rightarrow> map square_lineItem items),
           customerIdentity = (case customerEmail of
                                 None \<Rightarrow> None
                               | Some e \<Rightarrow> Some \<lparr> ci_shopifyCustomerId = None,
                                                  ci_squareCustomerId = None,
                                                  ci_anyroadGuestId = None,
                                                  ci_email = Some e,
                                                  ci_phone = None \<rparr>) \<rparr>)"

definition square_normalizeOrders ::
  "SquareOrder list \<Rightarrow> (string \<times> PaymentData) list \<Rightarrow> NormalizedOrder list" where
  "square_normalizeOrders orders paymentsMap =
     map (\<lambda>order. square_normalizeOrder order (map_of paymentsMap (qo_id order))) orders"





section \<open>The warehouse\<close>

text \<open>
  Modelled from the spec: the Prisma schema is not among the sources. The tables are the
  entities of the spec's data model (section 3) with the columns the code writes; a column
  is optional where some writer leaves it out. Each table is the list of its rows in
  insertion order. The primary key is \<open>id\<close> (\<open>customerHash\<close> for the identity bridge).
\<close>

record order_row =
  fo_id :: string
  fo_externalId :: "string option"
  fo_channelId :: string
  fo_locationId :: "string option"
  fo_createdAt :: time
  fo_updatedAt :: time
  fo_customerHash :: "pii_hash option"
  fo_grossTotal :: rat
  fo_netTotal :: rat
  fo_taxTotal :: rat
  fo_discountTotal :: rat
  fo_refundsTotal :: rat
  fo_tendersJson :: json
  fo_rawJson :: json

record line_row =
  fl_id :: string
  fl_orderId :: string
  fl_sku :: "string option"
  fl_productTitle :: string
  fl_category :: "string option"
  fl_qty :: int
  fl_lineTotal :: rat

record identity_row =
  bi_customerHash :: pii_hash
  bi_shopifyCustomerId :: "string option"
  bi_squareCustomerId :: "string option"
  bi_anyroadGuestId :: "string option"
  bi_updatedAt :: "time option"

record event_row =
  fe_id :: string
  fe_externalId :: "string option"
  fe_customerHash :: "pii_hash option"
  fe_eventType :: string
  fe_startsAt :: time
  fe_endsAt :: "time option"
  fe_attendees :: int
  fe_revenue :: rat
  fe_addOnSales :: rat
  fe_rawJson :: "(string \<times> json) list"

record location_row =
  dl_id :: string
  dl_name :: string
  dl_channel :: string

record audit_row =
  ia_id :: nat
  ia_source :: string
  ia_type :: string
  ia_status :: string
  ia_payload :: json
  ia_error :: "string option"
  ia_ts :: time

record warehouse =
  factOrder :: "order_row list"
  factOrderLine :: "line_row list"
  factEvent :: "event_row list"
  bridgeCustomerIdentity :: "identity_row list"
  dimLocation :: "location_row list"
  ingestAudit :: "audit_row list"

definition empty_warehouse :: warehouse where
  "empty_warehouse =
     \<lparr> factOrder = [], factOrderLine = [], factEvent = [], bridgeCustomerIdentity = [],
       dimLocation = [], ingestAudit = [] \<rparr>"

subsection \<open>The Prisma client's operations\<close>

text \<open>
  An operation that throws returns \<open>Inl\<close> of the message. The throws modelled are the
  ones the data decides: a unique-constraint violation in \<open>createMany\<close> and a missing
  record in \<open>update\<close>. A property given as \<open>undefined\<close> in \<open>update\<close> data leaves the
  column as it is.
\<close>

definition db_findUnique :: "('r \<Rightarrow> 'k) \<Rightarrow> 'k \<Rightarrow> 'r list \<Rightarrow> 'r option" where
  "db_findUnique key k rows = find (\<lambda>r. key r = k) rows"

definition db_upsert :: "('r \<Rightarrow> 'k) \<Rightarrow> 'k \<Rightarrow> ('r \<Rightarrow> 'r) \<Rightarrow> 'r \<Rightarrow> 'r list \<Rightarrow> 'r list" where
  "db_upsert key k update create rows =
     (case db_findUnique key k rows of
        Some _ \<Rightarrow> map (\<lambda>r. if key r = k then update r else r) rows
      | None \<Rightarrow> rows @ [create])"

definition db_update :: "('r \<Rightarrow> 'k) \<Rightarrow> 'k \<Rightarrow> ('r \<Rightarrow> 'r) \<Rightarrow> 'r list \<Rightarrow> string + 'r list" where
  "db_update key k update rows =
     (case db_findUnique key k rows of
        Some _ \<Rightarrow> Inr (map (\<lambda>r. if key r = k then update r else r) rows)
      | None \<Rightarrow> Inl ''Record to update not found'')"

definition db_deleteMany :: "('r \<Rightarrow> bool) \<Rightarrow> 'r list \<Rightarrow> 'r list" where
  "db_deleteMany matches rows = filter (\<lambda>r. \<not> matches r) rows"

definition db_createMany :: "('r \<Rightarrow> 'k) \<Rightarrow> 'r list \<Rightarrow> 'r list \<Rightarrow> string + 'r list" where
  "db_createMany key new rows =
     (if distinct (map key new) \<and> list_all (\<lambda>n. db_findUnique key (key n) rows = None) new
      then Inr (rows @ new)
      else Inl ''Unique constraint failed'')"

text \<open>\<open>update\<close> data \<open>{ column: v }\<close> with \<open>v\<close> possibly \<open>undefined\<close>.\<close>

definition set_if_defined :: "'a option \<Rightarrow> 'a option \<Rightarrow> 'a option" where
  "set_if_defined v old = (case v of None \<Rightarrow> old | Some x \<Rightarrow> Some x)"

subsection \<open>Persisting an order (\<open>scripts/shopify-backfill.ts\<close>)\<close>

text \<open>\<open>now\<close> is what \<open>new Date()\<close> reads during the call.\<close>

definition upsert_shopify_identity :: "time \<Rightarrow> NormalizedOrder \<Rightarrow> identity_row list \<Rightarrow> identity_row list" where
  "upsert_shopify_identity now order rows =
     (case (customerIdentity order, customerHash order) of
        (Some ci, Some h) \<Rightarrow>
          db_upsert bi_customerHash h
            (\<lambda>r. r \<lparr> bi_shopifyCustomerId := set_if_defined (ci_shopifyCustomerId ci) (bi_shopifyCustomerId r),
                     bi_updatedAt := Some now \<rparr>)
            \<lparr> bi_customerHash = h, bi_shopifyCustomerId = ci_shopifyCustomerId ci,
              bi_squareCustomerId = None, bi_anyroadGuestId = None, bi_updatedAt = None \<rparr>
            rows
      | _ \<Rightarrow> rows)"

text \<open>\<open>{ id: orderData.externalId, ...orderData }\<close>.\<close>

definition order_row_of :: "NormalizedOrder \<Rightarrow> order_row" where
  "order_row_of order =
     \<lparr> fo_id = externalId order, fo_externalId = Some (externalId order),
       fo_channelId = channelId order, fo_locationId = locationId order,
       fo_createdAt = createdAt order, fo_updatedAt = updatedAt order,
       fo_customerHash = customerHash order, fo_grossTotal = grossTotal order,
       fo_netTotal = netTotal order, fo_taxTotal = taxTotal order,
       fo_discountTotal = discountTotal order, fo_refundsTotal = refundsTotal order,
       fo_tendersJson = tendersJson order, fo_rawJson = rawJson order \<rparr>"

definition line_row_of :: "string \<Rightarrow> NormalizedLineItem \<Rightarrow> line_row" where
  "line_row_of order_id item =
     \<lparr> fl_id = li_externalId item, fl_orderId = order_id, fl_sku = li_sku item,
       fl_productTitle = li_productTitle item, fl_category = li_category item,
       fl_qty = li_qty item, fl_lineTotal = li_lineTotal item \<rparr>"

text \<open>Delete the order's lines, then insert the new set (if there is one).\<close>

definition replace_lines :: "string \<Rightarrow> NormalizedLineItem list \<Rightarrow> warehouse \<Rightarrow> (string + unit) \<times> warehouse" where
  "replace_lines order_id items w =
     (let w' = w \<lparr> factOrderLine := db_deleteMany (\<lambda>l. fl_orderId l = order_id) (factOrderLine w) \<rparr>
      in if items \<noteq> []
         then (case db_createMany fl_id (map (line_row_of order_id) items) (factOrderLine w') of
                 Inl e \<Rightarrow> (Inl e, w')
               | Inr ls \<Rightarrow> (Inr (), w' \<lparr> factOrderLine := ls \<rparr>))
         else (Inr (), w'))"

definition upsertOrder :: "time \<Rightarrow> NormalizedOrder \<Rightarrow> warehouse \<Rightarrow> (string + unit) \<times> warehouse" where
  "upsertOrder now order w =
     (let w1 = w \<lparr> bridgeCustomerIdentity :=
                     upsert_shopify_identity now order (bridgeCustomerIdentity w) \<rparr>;
          w2 = w1 \<lparr> factOrder :=
                      db_upsert fo_id (externalId order)
                        (\<lambda>r. (order_row_of order) \<lparr> fo_id := fo_id r, fo_updatedAt := now \<rparr>)
                        (order_row_of order)
                        (factOrder w1) \<rparr>
      in replace_lines (externalId order) (lineItems order) w2)"

text \<open>\<open>batchUpsertOrders\<close>: a failed order is logged and skipped.\<close>

fun batchUpsertOrders :: "time \<Rightarrow> NormalizedOrder list \<Rightarrow> warehouse \<Rightarrow> nat \<times> warehouse" where
  "batchUpsertOrders now [] w = (0, w)"
| "batchUpsertOrders now (order # orders) w =
     (case upsertOrder now order w of
        (Inr _, w') \<Rightarrow> (case batchUpsertOrders now orders w' of (n, w'') \<Rightarrow> (Suc n, w''))
      | (Inl _, w') \<Rightarrow> batchUpsertOrders now orders w')"

text \<open>The warehouse with the \<open>updatedAt\<close> stamps that a repeated upsert of \<open>order\<close>
  at time \<open>t\<close> refreshes: the order's row and its customer's bridge row.\<close>

definition restamp :: "time \<Rightarrow> NormalizedOrder \<Rightarrow> warehouse \<Rightarrow> warehouse" where
  "restamp t order w =
     w \<lparr> factOrder :=
           map (\<lambda>r. if fo_id r = externalId order then r \<lparr> fo_updatedAt := t \<rparr> else r)
             (factOrder w),
         bridgeCustomerIdentity :=
           map (\<lambda>r. if customerIdentity order \<noteq> None \<and> Some (bi_customerHash r) = customerHash order
                     then r \<lparr> bi_updatedAt := Some t \<rparr> else r)
             (bridgeCustomerIdentity w) \<rparr>"

text \<open>A Shopify order used where a concrete input is wanted: order 555, one line,
  a customer with an e-mail address, a 5.00 refund, last updated at instant 100.\<close>

definition order_555 :: ShopifyOrder where
  "order_555 =
     \<lparr> so_id = ''gid://shopify/Order/555'', so_name = Some ''#1001'', so_createdAt = 90,
       so_updatedAt = 100, so_totalPrice = 120, so_currentSubtotalPrice = 110,
       so_totalDiscounts = 0, so_totalTax = 10, so_totalRefunded = 5,
       so_customer = Some \<lparr> sc_id = ''gid://shopify/Customer/7'', sc_email = Some ''A@B.com'',
                            sc_phone = None \<rparr>,
       so_lineItems = [\<lparr> sl_id = ''gid://shopify/LineItem/9'', sl_name = ''Bourbon 750ml'',
                         sl_sku = Some ''BOURBON-750ML'', sl_quantity = 2, sl_originalTotal = 110,
                         sl_product = Some \<lparr> sp_id = ''gid://shopify/Product/3'',
                                             sp_productType = Some ''Spirits'' \<rparr> \<rparr>],
       so_transactions = [\<lparr> st_kind = ''SALE'', st_status = ''SUCCESS'', st_amount = 120,
                            st_gateway = ''shopify_payments'' \<rparr>] \<rparr>"

section \<open>Webhook ingress\<close>

text \<open>
  A request is its headers (names in lower case) and its raw body; \<open>headers.get\<close> returns
  \<open>null\<close> for an absent header. A response is the status and the JSON body.
\<close>

record request =
  rq_headers :: "(string \<times> string) list"
  rq_body :: string

record response =
  rs_status :: nat
  rs_body :: json

definition header :: "request \<Rightarrow> string \<Rightarrow> string option" where
  "header req name = map_of (rq_headers req) name"

definition json_response :: "nat \<Rightarrow> json \<Rightarrow> response" where
  "json_response status body = \<lparr> rs_status = status, rs_body = body \<rparr>"

text \<open>\<open>h || 'unknown'\<close>.\<close>

definition or_unknown :: "string option \<Rightarrow> string" where
  "or_unknown h = (case truthy_string h of Some s \<Rightarrow> s | None \<Rightarrow> ''unknown'')"

text \<open>
  The HMAC of Node's \<open>crypto\<close> is a parameter \<open>hmac key data\<close>, the encoded digest (base64
  for Shopify and Square, hex for AnyRoad). \<open>timingSafeEqual\<close> throws on buffers of
  different lengths, which the caller catches and answers \<open>false\<close>.
\<close>

definition timingSafeEqual :: "string \<Rightarrow> string \<Rightarrow> string + bool" where
  "timingSafeEqual a b =
     (if length a \<noteq> length b then Inl ''Input buffers must have the same byte length''
      else Inr (a = b))"

definition verifyWebhookHmac ::
  "(string \<Rightarrow> string \<Rightarrow> string) \<Rightarrow> string option \<Rightarrow> string \<Rightarrow> string \<Rightarrow> bool" where
  "verifyWebhookHmac hmac secret body hmacHeader =
     (case truthy_string secret of
        None \<Rightarrow> False
      | Some s \<Rightarrow>
          (case timingSafeEqual (hmac s body) hmacHeader of
             Inl _ \<Rightarrow> False
           | Inr b \<Rightarrow> b))"

subsection \<open>The ingest audit log\<close>

definition fresh_audit_id :: "audit_row list \<Rightarrow> nat" where
  "fresh_audit_id rows = Suc (fold max (map ia_id rows) 0)"

text \<open>\<open>db.ingestAudit.create\<close>: the new row's id, and the warehouse with the row.\<close>

definition audit_create ::
  "time \<Rightarrow> string \<Rightarrow> string \<Rightarrow> string \<Rightarrow> json \<Rightarrow> string option \<Rightarrow> warehouse \<Rightarrow> nat \<times> warehouse" where
  "audit_create now source type status payload error w =
     (let i = fresh_audit_id (ingestAudit w)
      in (i, w \<lparr> ingestAudit := ingestAudit w @
                  [\<lparr> ia_id = i, ia_source = source, ia_type = type, ia_status = status,
                     ia_payload = payload, ia_error = error, ia_ts = now \<rparr>] \<rparr>))"

text \<open>\<open>db.ingestAudit.update\<close> of the status, with the payload or the error when given.\<close>

definition audit_update ::
  "nat \<Rightarrow> string \<Rightarrow> json option \<Rightarrow> string option \<Rightarrow> warehouse \<Rightarrow> warehouse" where
  "audit_update i status payload error w =
     w \<lparr> ingestAudit :=
           map (\<lambda>r. if ia_id r = i
                     then r \<lparr> ia_status := status,
                              ia_payload := (case payload of None \<Rightarrow> ia_payload r | Some p \<Rightarrow> p),
                              ia_error := set_if_defined error (ia_error r) \<rparr>
                     else r)
             (ingestAudit w) \<rparr>"

subsection \<open>Shopify (\<open>app/api/webhooks/shopify/route.ts\<close>)\<close>

text \<open>
  The webhook payload is untyped in the source. The record holds the properties the
  handlers read, at the types Shopify sends them (an amount is the decimal its string
  denotes, an id is its rendering in a template string), and in \<open>wp_json\<close> the payload
  object itself. \<open>None\<close> is an absent (or falsy) property.
\<close>

record WebhookCustomer =
  wc_id :: string
  wc_email :: "string option"
  wc_phone :: "string option"

record WebhookLineItem =
  wl_id :: string
  wl_name :: string
  wl_sku :: "string option"
  wl_quantity :: int
  wl_price :: rat
  wl_product_id :: "string option"
  wl_product_type :: "string option"

record WebhookTransaction =
  wt_kind :: "string option"
  wt_status :: "string option"
  wt_amount :: "rat option"
  wt_gateway :: "string option"

record ShopifyWebhookPayload =
  wp_id :: string
  wp_name :: "string option"
  wp_order_number :: "string option"
  wp_created_at :: time
  wp_updated_at :: time
  wp_total_price :: "rat option"
  wp_subtotal_price :: "rat option"
  wp_total_discounts :: "rat option"
  wp_total_tax :: "rat option"
  wp_refunds :: "rat option list option"
  wp_customer :: "WebhookCustomer option"
  wp_line_items :: "WebhookLineItem list option"
  wp_transactions :: "WebhookTransaction list option"
  wp_order_id :: string
  wp_amount :: "rat option"
  wp_json :: "(string \<times> json) list"

text \<open>\<open>a || '0'\<close>, then \<open>parseFloat\<close>.\<close>

definition or_zero :: "rat option \<Rightarrow> rat" where
  "or_zero a = (case a of None \<Rightarrow> 0 | Some x \<Rightarrow> x)"

definition toUpperCase_char :: "char \<Rightarrow> char" where
  "toUpperCase_char c =
     (case map_of (zip ''abcdefghijklmnopqrstuvwxyz'' ''ABCDEFGHIJKLMNOPQRSTUVWXYZ'') c of
        Some d \<Rightarrow> d
      | None \<Rightarrow> c)"

definition toUpperCase :: "string \<Rightarrow> string" where
  "toUpperCase s = map toUpperCase_char s"

text \<open>Each element of \<open>wp_refunds\<close> is the refund's
  \<open>total_refund_set?.shop_money?.amount\<close>.\<close>

definition calculateTotalRefunded :: "ShopifyWebhookPayload \<Rightarrow> rat" where
  "calculateTotalRefunded payload =
     (case wp_refunds payload of
        None \<Rightarrow> 0
      | Some refunds \<Rightarrow>
          if refunds = [] then 0
          else foldl (\<lambda>sum refund. sum + or_zero refund) 0 refunds)"

definition transformWebhookToOrder :: "ShopifyWebhookPayload \<Rightarrow> ShopifyOrder" where
  "transformWebhookToOrder payload =
     \<lparr> so_id = ''gid://shopify/Order/'' @ wp_id payload,
       so_name = (case truthy_string (wp_name payload) of
                    Some n \<Rightarrow> Some n | None \<Rightarrow> wp_order_number payload),
       so_createdAt = wp_created_at payload,
       so_updatedAt = wp_updated_at payload,
       so_totalPrice = or_zero (wp_total_price payload),
       so_currentSubtotalPrice = or_zero (wp_subtotal_price payload),
       so_totalDiscounts = or_zero (wp_total_discounts payload),
       so_totalTax = or_zero (wp_total_tax payload),
       so_totalRefunded = calculateTotalRefunded payload,
       so_customer =
         (case wp_customer payload of
            None \<Rightarrow> None
          | Some c \<Rightarrow> Some \<lparr> sc_id = ''gid://shopify/Customer/'' @ wc_id c,
                             sc_email = wc_email c, sc_phone = wc_phone c \<rparr>),
       so_lineItems =
         map (\<lambda>item.
               \<lparr> sl_id = ''gid://shopify/LineItem/'' @ wl_id item,
                 sl_name = wl_name item,
                 sl_sku = wl_sku item,
                 sl_quantity = wl_quantity item,
                 sl_originalTotal = wl_price item * of_int (wl_quantity item),
                 sl_product =
                   (case truthy_string (wl_product_id item) of
                      None \<Rightarrow> None
                    | Some pid \<Rightarrow> Some \<lparr> sp_id = ''gid://shopify/Product/'' @ pid,
                                         sp_productType = truthy_string (wl_product_type item) \<rparr>) \<rparr>)
           (case wp_line_items payload of None \<Rightarrow> [] | Some items \<Rightarrow> items),
       so_transactions =
         map (\<lambda>txn.
               \<lparr> st_kind = (case truthy_string (map_option toUpperCase (wt_kind txn)) of
                              Some k \<Rightarrow> k | None \<Rightarrow> ''SALE''),
                 st_status = (case truthy_string (map_option toUpperCase (wt_status txn)) of
                                Some s \<Rightarrow> s | None \<Rightarrow> ''SUCCESS''),
                 st_amount = or_zero (wt_amount txn),
                 st_gateway = or_unknown (wt_gateway txn) \<rparr>)
           (case wp_transactions payload of None \<Rightarrow> [] | Some txns \<Rightarrow> txns) \<rparr>"

text \<open>The columns that both branches of the webhook's upsert write; \<open>externalId\<close> is
  not among them.\<close>

definition webhook_order_columns :: "time \<Rightarrow> NormalizedOrder \<Rightarrow> order_row \<Rightarrow> order_row" where
  "webhook_order_columns now n r =
     r \<lparr> fo_channelId := channelId n, fo_locationId := locationId n,
         fo_createdAt := createdAt n, fo_updatedAt := now,
         fo_customerHash := customerHash n, fo_grossTotal := grossTotal n,
         fo_netTotal := netTotal n, fo_taxTotal := taxTotal n,
         fo_discountTotal := discountTotal n, fo_refundsTotal := refundsTotal n,
         fo_tendersJson := tendersJson n, fo_rawJson := rawJson n \<rparr>"

definition handleOrderWebhook :: "time \<Rightarrow> ShopifyWebhookPayload \<Rightarrow> warehouse \<Rightarrow> (string + unit) \<times> warehouse" where
  "handleOrderWebhook now payload w =
     (let shopifyOrder = transformWebhookToOrder payload;
          normalized = normalizeOrder shopifyOrder;
          w1 = w \<lparr> bridgeCustomerIdentity :=
                     upsert_shopify_identity now normalized (bridgeCustomerIdentity w) \<rparr>;
          w2 = w1 \<lparr> factOrder :=
                      db_upsert fo_id (externalId normalized)
                        (webhook_order_columns now normalized)
                        (webhook_order_columns now normalized
                           ((order_row_of normalized) \<lparr> fo_externalId := None \<rparr>))
                        (factOrder w1) \<rparr>
      in replace_lines (externalId normalized) (lineItems normalized) w2)"

text \<open>\<open>{ ...(raw as any) }\<close>: the properties of an object.\<close>

definition json_spread :: "json \<Rightarrow> (string \<times> json) list" where
  "json_spread j = (case j of JObj kvs \<Rightarrow> kvs | _ \<Rightarrow> [])"

definition handleRefundWebhook :: "time \<Rightarrow> ShopifyWebhookPayload \<Rightarrow> warehouse \<Rightarrow> (string + unit) \<times> warehouse" where
  "handleRefundWebhook now payload w =
     (let orderId = ''shopify_order_'' @ wp_order_id payload;
          refundAmount = or_zero (wp_amount payload)
      in case db_findUnique fo_id orderId (factOrder w) of
           None \<Rightarrow> (Inr (), w)
         | Some existingOrder \<Rightarrow>
             (let newRefundsTotal = fo_refundsTotal existingOrder + refundAmount;
                  newNetTotal = fo_grossTotal existingOrder - newRefundsTotal
              in case db_update fo_id orderId
                        (\<lambda>r. r \<lparr> fo_refundsTotal := newRefundsTotal,
                                 fo_netTotal := newNetTotal,
                                 fo_updatedAt := now,
                                 fo_rawJson :=
                                   JObj (AList.update ''refundedAt'' (JNum (of_int now))
                                          (AList.update ''lastRefund'' (JObj (wp_json payload))
                                            (json_spread (fo_rawJson existingOrder)))) \<rparr>)
                        (factOrder w) of
                   Inl e \<Rightarrow> (Inl e, w)
                 | Inr rows \<Rightarrow> (Inr (), w \<lparr> factOrder := rows \<rparr>)))"

text \<open>The audit payload \<open>{ topic, webhookId, orderId: payload.id }\<close>, with
  \<open>processedAt\<close> once processed.\<close>

definition shopify_audit_payload ::
  "string option \<Rightarrow> string \<Rightarrow> ShopifyWebhookPayload \<Rightarrow> time option \<Rightarrow> json" where
  "shopify_audit_payload topic webhookId payload processedAt =
     JObj ([(''topic'', opt_json JStr topic), (''webhookId'', JStr webhookId)]
           @ opt_prop ''orderId'' (\<lambda>j. j) (map_of (wp_json payload) ''id'')
           @ opt_prop ''processedAt'' (\<lambda>t. JNum (of_int t)) processedAt)"

text \<open>\<open>`webhook_${topic}`\<close>: a null topic renders as \<open>null\<close>.\<close>

definition webhook_type :: "string option \<Rightarrow> string" where
  "webhook_type topic = ''webhook_'' @ (case topic of None \<Rightarrow> ''null'' | Some t \<Rightarrow> t)"

text \<open>
  \<open>POST\<close>. \<open>parse\<close> is \<open>JSON.parse\<close> on the body followed by the reading of the payload's
  properties; \<open>None\<close> is a body that is not JSON.
\<close>

definition shopify_POST ::
  "(string \<Rightarrow> string \<Rightarrow> string) \<Rightarrow> (string \<Rightarrow> ShopifyWebhookPayload option) \<Rightarrow> string option
   \<Rightarrow> time \<Rightarrow> request \<Rightarrow> warehouse \<Rightarrow> response \<times> warehouse" where
  "shopify_POST hmac parse SHOPIFY_WEBHOOK_SECRET now req w =
     (let topic = header req ''x-shopify-topic'';
          body = rq_body req
      in case truthy_string (header req ''x-shopify-hmac-sha256'') of
           None \<Rightarrow> (json_response 401 (JObj [(''error'', JStr ''Missing HMAC signature'')]), w)
         | Some hmacHeader \<Rightarrow>
             if \<not> verifyWebhookHmac hmac SHOPIFY_WEBHOOK_SECRET body hmacHeader
             then (json_response 401 (JObj [(''error'', JStr ''Invalid HMAC signature'')]), w)
             else
               (case parse body of
                  None \<Rightarrow> (json_response 500 (JObj [(''error'', JStr ''Internal server error'')]), w)
                | Some payload \<Rightarrow>
                    (let webhookId = or_unknown (header req ''x-shopify-webhook-id'');
                         (auditId, w1) =
                           audit_create now ''shopify'' (webhook_type topic) ''processing''
                             (shopify_audit_payload topic webhookId payload None) None w;
                         (outcome, w2) =
                           (if topic = Some ''orders/create'' \<or> topic = Some ''orders/updated''
                            then handleOrderWebhook now payload w1
                            else if topic = Some ''refunds/create''
                            then handleRefundWebhook now payload w1
                            else (Inr (), w1))
                     in case outcome of
                          Inr _ \<Rightarrow>
                            (json_response 200 (JObj [(''received'', JBool True)]),
                             audit_update auditId ''success''
                               (Some (shopify_audit_payload topic webhookId payload (Some now)))
                               None w2)
                        | Inl e \<Rightarrow>
                            (json_response 500 (JObj [(''error'', JStr ''Internal server error'')]),
                             audit_update auditId ''failed'' None (Some e) w2))))"

subsection \<open>Square (\<open>app/api/webhooks/square/route.ts\<close>)\<close>

text \<open>
  The Square signature is the HMAC of the notification URL followed by the body.
\<close>

definition verifyWebhookSignature ::
  "(string \<Rightarrow> string \<Rightarrow> string) \<Rightarrow> string option \<Rightarrow> string \<Rightarrow> string \<Rightarrow> string \<Rightarrow> bool" where
  "verifyWebhookSignature hmac secret body signature webhookUrl =
     (case truthy_string secret of
        None \<Rightarrow> False
      | Some s \<Rightarrow>
          (case timingSafeEqual (hmac s (webhookUrl @ body)) signature of
             Inl _ \<Rightarrow> False
           | Inr b \<Rightarrow> b))"

text \<open>\<open>process.env.SQUARE_WEBHOOK_URL || process.env.NEXT_PUBLIC_APP_URL +
  '/api/webhooks/square'\<close>; an unset variable concatenates as \<open>undefined\<close>.\<close>

definition square_webhookUrl :: "string option \<Rightarrow> string option \<Rightarrow> string" where
  "square_webhookUrl SQUARE_WEBHOOK_URL NEXT_PUBLIC_APP_URL =
     (case truthy_string SQUARE_WEBHOOK_URL of
        Some u \<Rightarrow> u
      | None \<Rightarrow> (case NEXT_PUBLIC_APP_URL of None \<Rightarrow> ''undefined'' | Some a \<Rightarrow> a)
                @ ''/api/webhooks/square'')"

text \<open>
  The event is untyped in the source; the records hold the properties the handlers read
  (\<open>event.data?.object?.payment\<close> and \<open>event.data?.object?.order\<close>), money in cents.
\<close>

record SquareWebhookPayment =
  py_id :: string
  py_order_id :: "string option"
  py_status :: "string option"
  py_source_type :: "string option"
  py_amount :: "int option"
  py_refunded :: "int option"
  py_processing_fee :: "int option list option"
  py_card_brand :: "string option"
  py_last_4 :: "string option"
  py_buyer_email_address :: "string option"
  py_json :: json

record SquareEvent =
  ev_type :: "string option"
  ev_event_id :: "string option"
  ev_merchant_id :: "json option"
  ev_payment :: "SquareWebhookPayment option"
  ev_order_id :: "string option"

text \<open>The Square API, as far as the handlers call it: \<open>fetchOrderById\<close> (null when the
  call fails) and \<open>paymentsApi.listPayments\<close> for an order (which may throw).\<close>

record SquareApi =
  api_fetchOrderById :: "string \<Rightarrow> SquareOrder option"
  api_listPayments :: "string \<Rightarrow> string + SquarePayment list"

text \<open>\<open>existingOrder.tendersJson || []\<close>, as the array that \<open>[...currentTenders, t]\<close>
  and \<open>currentTenders.map\<close> need; spreading a value that is not iterable throws.\<close>

definition currentTenders :: "json \<Rightarrow> string + json list" where
  "currentTenders j =
     (case j of
        JArr ts \<Rightarrow> Inr ts
      | JNull \<Rightarrow> Inr []
      | JBool b \<Rightarrow> if b then Inl ''currentTenders is not iterable'' else Inr []
      | JNum n \<Rightarrow> if n = 0 then Inr [] else Inl ''currentTenders is not iterable''
      | JStr s \<Rightarrow> Inr (map (\<lambda>c. JStr [c]) s)
      | JObj _ \<Rightarrow> Inl ''currentTenders is not iterable'')"

definition tender_paymentId :: "json \<Rightarrow> json option" where
  "tender_paymentId t = (case t of JObj kvs \<Rightarrow> map_of kvs ''paymentId'' | _ \<Rightarrow> None)"

definition payment_tender :: "SquareWebhookPayment \<Rightarrow> json" where
  "payment_tender payment =
     JObj ([(''paymentId'', JStr (py_id payment))]
           @ opt_prop ''status'' JStr (py_status payment)
           @ opt_prop ''sourceType'' JStr (py_source_type payment)
           @ [(''amount'', JNum (case py_amount payment of None \<Rightarrow> 0 | Some a \<Rightarrow> cents a))]
           @ opt_prop ''cardBrand'' JStr (py_card_brand payment)
           @ opt_prop ''last4'' JStr (py_last_4 payment)
           @ [(''processingFees'',
               JNum (case py_processing_fee payment of
                       None \<Rightarrow> 0
                     | Some fs \<Rightarrow>
                         foldl (\<lambda>sum fee. sum + (case fee of None \<Rightarrow> 0 | Some a \<Rightarrow> cents a)) 0 fs))])"

text \<open>The route calls \<open>upsertOrder\<close>, which it neither defines nor imports: reaching the
  call throws a \<open>ReferenceError\<close>.\<close>

definition square_handlePaymentWebhook ::
  "SquareApi \<Rightarrow> time \<Rightarrow> SquareEvent \<Rightarrow> warehouse \<Rightarrow> (string + unit) \<times> warehouse" where
  "square_handlePaymentWebhook api now event w =
     (case ev_payment event of
        None \<Rightarrow> (Inr (), w)
      | Some payment \<Rightarrow>
          (case truthy_string (py_order_id payment) of
             None \<Rightarrow> (Inr (), w)
           | Some orderId \<Rightarrow>
               (let externalOrderId = ''square_order_'' @ orderId
                in case db_findUnique fo_id externalOrderId (factOrder w) of
                     None \<Rightarrow>
                       (case api_fetchOrderById api orderId of
                          None \<Rightarrow> (Inr (), w)
                        | Some squareOrder \<Rightarrow> (Inl ''upsertOrder is not defined'', w))
                   | Some existingOrder \<Rightarrow>
                       (case currentTenders (fo_tendersJson existingOrder) of
                          Inl e \<Rightarrow> (Inl e, w)
                        | Inr tenders \<Rightarrow>
                            (let refundedAmount =
                                   (case py_refunded payment of None \<Rightarrow> 0 | Some r \<Rightarrow> cents r);
                                 paymentExists =
                                   list_ex (\<lambda>t. tender_paymentId t = Some (JStr (py_id payment))) tenders;
                                 updatedTenders =
                                   (if paymentExists
                                    then map (\<lambda>t. if tender_paymentId t = Some (JStr (py_id payment))
                                                   then payment_tender payment else t) tenders
                                    else tenders @ [payment_tender payment]);
                                 newRefundsTotal = fo_refundsTotal existingOrder + refundedAmount;
                                 newNetTotal = fo_grossTotal existingOrder - newRefundsTotal;
                                 newHash = (if fo_customerHash existingOrder = None
                                              \<and> truthy_string (py_buyer_email_address payment) \<noteq> None
                                            then hashPii (py_buyer_email_address payment)
                                            else fo_customerHash existingOrder);
                                 w1 = (if fo_customerHash existingOrder = None
                                         \<and> truthy_string (py_buyer_email_address payment) \<noteq> None
                                       then (case newHash of
                                               None \<Rightarrow> w
                                             | Some h \<Rightarrow>
                                                 w \<lparr> bridgeCustomerIdentity :=
                                                       db_upsert bi_customerHash h
                                                         (\<lambda>r. r \<lparr> bi_updatedAt := Some now \<rparr>)
                                                         \<lparr> bi_customerHash = h,
                                                           bi_shopifyCustomerId = None,
                                                           bi_squareCustomerId = None,
                                                           bi_anyroadGuestId = None,
                                                           bi_updatedAt = None \<rparr>
                                                         (bridgeCustomerIdentity w) \<rparr>)
                                       else w)
                             in case db_update fo_id externalOrderId
                                       (\<lambda>r. r \<lparr> fo_customerHash := newHash,
                                                fo_refundsTotal := newRefundsTotal,
                                                fo_netTotal := newNetTotal,
                                                fo_tendersJson := JArr updatedTenders,
                                                fo_updatedAt := now,
                                                fo_rawJson :=
                                                  JObj (AList.update ''updatedAt'' (JNum (of_int now))
                                                         (AList.update ''lastPaymentUpdate'' (py_json payment)
                                                           (json_spread (fo_rawJson existingOrder)))) \<rparr>)
                                       (factOrder w1) of
                                  Inl e \<Rightarrow> (Inl e, w1)
                                | Inr rows \<Rightarrow> (Inr (), w1 \<lparr> factOrder := rows \<rparr>))))))"

text \<open>The upsert's \<open>update\<close> branch leaves \<open>createdAt\<close> (and \<open>externalId\<close>) as they are.\<close>

definition square_handleOrderWebhook ::
  "SquareApi \<Rightarrow> time \<Rightarrow> SquareEvent \<Rightarrow> warehouse \<Rightarrow> (string + unit) \<times> warehouse" where
  "square_handleOrderWebhook api now event w =
     (case ev_order_id event of
        None \<Rightarrow> (Inr (), w)
      | Some orderId \<Rightarrow>
          (case api_fetchOrderById api orderId of
             None \<Rightarrow> (Inr (), w)
           | Some squareOrder \<Rightarrow>
               (case api_listPayments api orderId of
                  Inl e \<Rightarrow> (Inl e, w)
                | Inr payments \<Rightarrow>
                    (let paymentsMap = reconcilePaymentsToOrders [squareOrder] payments;
                         normalized = square_normalizeOrder squareOrder (map_of paymentsMap orderId);
                         w1 = (case (customerIdentity normalized, customerHash normalized) of
                                 (Some ci, Some h) \<Rightarrow>
                                   w \<lparr> bridgeCustomerIdentity :=
                                         db_upsert bi_customerHash h
                                           (\<lambda>r. r \<lparr> bi_updatedAt := Some now \<rparr>)
                                           \<lparr> bi_customerHash = h, bi_shopifyCustomerId = None,
                                             bi_squareCustomerId = None, bi_anyroadGuestId = None,
                                             bi_updatedAt = None \<rparr>
                                           (bridgeCustomerIdentity w) \<rparr>
                               | _ \<Rightarrow> w);
                         w2 = w1 \<lparr> factOrder :=
                                     db_upsert fo_id (externalId normalized)
                                       (\<lambda>r. (webhook_order_columns now normalized r)
                                               \<lparr> fo_createdAt := fo_createdAt r \<rparr>)
                                       (webhook_order_columns now normalized
                                          ((order_row_of normalized) \<lparr> fo_externalId := None \<rparr>))
                                       (factOrder w1) \<rparr>
                     in replace_lines (externalId normalized) (lineItems normalized) w2))))"

definition square_audit_payload :: "string \<Rightarrow> string \<Rightarrow> json option \<Rightarrow> time option \<Rightarrow> json" where
  "square_audit_payload eventType eventId merchantId processedAt =
     JObj ([(''eventType'', JStr eventType), (''eventId'', JStr eventId)]
           @ opt_prop ''merchantId'' (\<lambda>j. j) merchantId
           @ opt_prop ''processedAt'' (\<lambda>t. JNum (of_int t)) processedAt)"

definition square_POST ::
  "(string \<Rightarrow> string \<Rightarrow> string) \<Rightarrow> (string \<Rightarrow> SquareEvent option) \<Rightarrow> SquareApi
   \<Rightarrow> string option \<Rightarrow> string \<Rightarrow> time \<Rightarrow> request \<Rightarrow> warehouse \<Rightarrow> response \<times> warehouse" where
  "square_POST hmac parse api SQUARE_WEBHOOK_SECRET webhookUrl now req w =
     (let body = rq_body req
      in case truthy_string (header req ''x-square-hmacsha256-signature'') of
           None \<Rightarrow> (json_response 401 (JObj [(''error'', JStr ''Missing signature'')]), w)
         | Some signature \<Rightarrow>
             if \<not> verifyWebhookSignature hmac SQUARE_WEBHOOK_SECRET body signature webhookUrl
             then (json_response 401 (JObj [(''error'', JStr ''Invalid signature'')]), w)
             else
               (case parse body of
                  None \<Rightarrow> (json_response 500 (JObj [(''error'', JStr ''Internal server error'')]), w)
                | Some event \<Rightarrow>
                    (let eventType = or_unknown (ev_type event);
                         eventId = or_unknown (ev_event_id event);
                         (auditId, w1) =
                           audit_create now ''square'' (''webhook_'' @ eventType) ''processing''
                             (square_audit_payload eventType eventId (ev_merchant_id event) None)
                             None w;
                         (outcome, w2) =
                           (if eventType = ''payment.created'' \<or> eventType = ''payment.updated''
                            then square_handlePaymentWebhook api now event w1
                            else if eventType = ''order.created'' \<or> eventType = ''order.updated''
                            then square_handleOrderWebhook api now event w1
                            else (Inr (), w1))
                     in case outcome of
                          Inr _ \<Rightarrow>
                            (json_response 200 (JObj [(''received'', JBool True)]),
                             audit_update auditId ''success''
                               (Some (square_audit_payload eventType eventId None (Some now)))
                               None w2)
                        | Inl e \<Rightarrow>
                            (json_response 500 (JObj [(''error'', JStr ''Internal server error'')]),
                             audit_update auditId ''failed'' None (Some e) w2))))"

subsection \<open>AnyRoad (\<open>lib/anyroad.ts\<close>, \<open>app/api/webhooks/anyroad/route.ts\<close>)\<close>

text \<open>
  A booking is untyped where the webhook handlers get it. The record holds the
  properties the code reads, at the types of the interface \<open>AnyRoadBooking\<close>, and in
  \<open>ab_json\<close> the booking object itself, which is what \<open>rawJson: booking\<close> stores.
  \<open>ab_startsAt\<close> and \<open>ab_endsAt\<close> are the instants that \<open>event_date\<close> with
  \<open>start_time\<close> and \<open>end_time\<close> denote (no end time: \<open>None\<close>).
\<close>

record AnyRoadGuest =
  ag_id :: string
  ag_email :: "string option"
  ag_phone :: "string option"

record AnyRoadBooking =
  ab_id :: string
  ab_experience_category :: "string option"
  ab_experience_name :: "string option"
  ab_startsAt :: time
  ab_endsAt :: "time option"
  ab_guests_count :: "int option"
  ab_total_price :: "rat option"
  ab_add_ons_total :: "rat option"
  ab_primary_guest :: "AnyRoadGuest option"
  ab_cancellation_reason :: "json option"
  ab_actual_attendance :: "int option"
  ab_json :: "(string \<times> json) list"

record NormalizedEvent =
  ne_externalId :: string
  ne_eventType :: string
  ne_startsAt :: time
  ne_endsAt :: "time option"
  ne_attendees :: int
  ne_revenue :: rat
  ne_addOnSales :: rat
  ne_rawJson :: "(string \<times> json) list"
  ne_customerHash :: "pii_hash option"
  ne_customerIdentity :: "CustomerIdentity option"

fun starts_with :: "string \<Rightarrow> string \<Rightarrow> bool" where
  "starts_with s [] = True"
| "starts_with [] (c # cs) = False"
| "starts_with (x # xs) (c # cs) = (x = c \<and> starts_with xs cs)"

text \<open>\<open>s.includes(sub)\<close>.\<close>

fun js_includes :: "string \<Rightarrow> string \<Rightarrow> bool" where
  "js_includes [] sub = (sub = [])"
| "js_includes (x # xs) sub = (starts_with (x # xs) sub \<or> js_includes xs sub)"

text \<open>\<open>n || 0\<close>.\<close>

definition int_or_zero :: "int option \<Rightarrow> int" where
  "int_or_zero n = (case n of None \<Rightarrow> 0 | Some k \<Rightarrow> k)"

definition normalizeBooking :: "AnyRoadBooking \<Rightarrow> NormalizedEvent" where
  "normalizeBooking booking =
     (let hash = (case ab_primary_guest booking of
                    None \<Rightarrow> None
                  | Some guest \<Rightarrow>
                      generateCustomerHash (truthy_string (ag_email guest)) (truthy_string (ag_phone guest)));
          identity = (case (ab_primary_guest booking, hash) of
                        (Some guest, Some h) \<Rightarrow>
                          Some \<lparr> ci_shopifyCustomerId = None, ci_squareCustomerId = None,
                                 ci_anyroadGuestId = Some (''anyroad_guest_'' @ ag_id guest),
                                 ci_email = ag_email guest, ci_phone = ag_phone guest \<rparr>
                      | _ \<Rightarrow> None);
          eventType = (case truthy_string (ab_experience_category booking) of
                         Some c \<Rightarrow> c
                       | None \<Rightarrow>
                           (case ab_experience_name booking of
                              Some n \<Rightarrow> if js_includes (toLowerCase n) ''tour'' then ''tour''
                                        else ''experience''
                            | None \<Rightarrow> ''experience''))
      in \<lparr> ne_externalId = ''anyroad_booking_'' @ ab_id booking,
           ne_eventType = eventType,
           ne_startsAt = ab_startsAt booking,
           ne_endsAt = ab_endsAt booking,
           ne_attendees = int_or_zero (ab_guests_count booking),
           ne_revenue = or_zero (ab_total_price booking),
           ne_addOnSales = or_zero (ab_add_ons_total booking),
           ne_rawJson = ab_json booking,
           ne_customerHash = hash,
           ne_customerIdentity = identity \<rparr>)"

definition normalizeBookings :: "AnyRoadBooking list \<Rightarrow> NormalizedEvent list" where
  "normalizeBookings bookings = map normalizeBooking bookings"

text \<open>\<open>{ id: eventData.externalId, ...eventData }\<close>.\<close>

definition event_row_of :: "NormalizedEvent \<Rightarrow> event_row" where
  "event_row_of n =
     \<lparr> fe_id = ne_externalId n, fe_externalId = Some (ne_externalId n),
       fe_customerHash = ne_customerHash n,
       fe_eventType = ne_eventType n, fe_startsAt = ne_startsAt n,
       fe_endsAt = ne_endsAt n, fe_attendees = ne_attendees n, fe_revenue = ne_revenue n,
       fe_addOnSales = ne_addOnSales n, fe_rawJson = ne_rawJson n \<rparr>"

definition upsert_anyroad_identity :: "time \<Rightarrow> NormalizedEvent \<Rightarrow> identity_row list \<Rightarrow> identity_row list" where
  "upsert_anyroad_identity now n rows =
     (case (ne_customerIdentity n, ne_customerHash n) of
        (Some ci, Some h) \<Rightarrow>
          db_upsert bi_customerHash h
            (\<lambda>r. r \<lparr> bi_anyroadGuestId := set_if_defined (ci_anyroadGuestId ci) (bi_anyroadGuestId r),
                     bi_updatedAt := Some now \<rparr>)
            \<lparr> bi_customerHash = h, bi_shopifyCustomerId = None, bi_squareCustomerId = None,
              bi_anyroadGuestId = ci_anyroadGuestId ci, bi_updatedAt = None \<rparr>
            rows
      | _ \<Rightarrow> rows)"

text \<open>Booking created or updated: both branches of the upsert write the columns
  \<open>eventType\<close> to \<open>rawJson\<close> from the normalised booking; \<open>externalId\<close> and
  \<open>customerHash\<close> are not among them.\<close>

definition handleBookingWebhook :: "time \<Rightarrow> AnyRoadBooking \<Rightarrow> warehouse \<Rightarrow> (string + unit) \<times> warehouse" where
  "handleBookingWebhook now bookingData w =
     (let normalized = normalizeBooking bookingData;
          w1 = w \<lparr> bridgeCustomerIdentity :=
                     upsert_anyroad_identity now normalized (bridgeCustomerIdentity w) \<rparr>
      in (Inr (),
          w1 \<lparr> factEvent :=
                 db_upsert fe_id (ne_externalId normalized)
                   (\<lambda>r. (event_row_of normalized)
                           \<lparr> fe_id := fe_id r, fe_externalId := fe_externalId r,
                             fe_customerHash := fe_customerHash r \<rparr>)
                   ((event_row_of normalized) \<lparr> fe_externalId := None, fe_customerHash := None \<rparr>)
                   (factEvent w1) \<rparr>))"

text \<open>An object literal's property \<open>k: v\<close> after a spread: it overrides the spread's
  \<open>k\<close>; when \<open>v\<close> is \<open>undefined\<close> the stored JSON has no \<open>k\<close>.\<close>

definition set_prop :: "string \<Rightarrow> json option \<Rightarrow> (string \<times> json) list \<Rightarrow> (string \<times> json) list" where
  "set_prop k v obj = (case v of None \<Rightarrow> AList.delete k obj | Some x \<Rightarrow> AList.update k x obj)"

definition handleBookingCancellation :: "time \<Rightarrow> AnyRoadBooking \<Rightarrow> warehouse \<Rightarrow> (string + unit) \<times> warehouse" where
  "handleBookingCancellation now bookingData w =
     (let eventId = ''anyroad_booking_'' @ ab_id bookingData
      in case db_findUnique fe_id eventId (factEvent w) of
           None \<Rightarrow> (Inr (), w)
         | Some existingEvent \<Rightarrow>
             (case db_update fe_id eventId
                     (\<lambda>r. r \<lparr> fe_revenue := 0,
                              fe_addOnSales := 0,
                              fe_rawJson :=
                                set_prop ''cancellationReason'' (ab_cancellation_reason bookingData)
                                  (set_prop ''cancelledAt'' (Some (JNum (of_int now)))
                                    (set_prop ''cancelled'' (Some (JBool True))
                                      (fe_rawJson existingEvent))) \<rparr>)
                     (factEvent w) of
                Inl e \<Rightarrow> (Inl e, w)
              | Inr rows \<Rightarrow> (Inr (), w \<lparr> factEvent := rows \<rparr>)))"

text \<open>\<open>bookingData.actual_attendance || bookingData.guests_count\<close>.\<close>

definition actualAttendees :: "AnyRoadBooking \<Rightarrow> json option" where
  "actualAttendees bookingData =
     (case ab_actual_attendance bookingData of
        Some n \<Rightarrow> if n \<noteq> 0 then Some (JNum (of_int n))
                  else map_option (\<lambda>g. JNum (of_int g)) (ab_guests_count bookingData)
      | None \<Rightarrow> map_option (\<lambda>g. JNum (of_int g)) (ab_guests_count bookingData))"

definition handleBookingCompletion :: "time \<Rightarrow> AnyRoadBooking \<Rightarrow> warehouse \<Rightarrow> (string + unit) \<times> warehouse" where
  "handleBookingCompletion now bookingData w =
     (let eventId = ''anyroad_booking_'' @ ab_id bookingData
      in case db_findUnique fe_id eventId (factEvent w) of
           None \<Rightarrow> handleBookingWebhook now bookingData w
         | Some existingEvent \<Rightarrow>
             (case db_update fe_id eventId
                     (\<lambda>r. r \<lparr> fe_rawJson :=
                                set_prop ''actualAttendees'' (actualAttendees bookingData)
                                  (set_prop ''completedAt'' (Some (JNum (of_int now)))
                                    (set_prop ''completed'' (Some (JBool True))
                                      (fe_rawJson existingEvent))) \<rparr>)
                     (factEvent w) of
                Inl e \<Rightarrow> (Inl e, w)
              | Inr rows \<Rightarrow> (Inr (), w \<lparr> factEvent := rows \<rparr>)))"

text \<open>AnyRoad signs the raw body; the digest is hex.\<close>

definition anyroad_verifyWebhookHmac ::
  "(string \<Rightarrow> string \<Rightarrow> string) \<Rightarrow> string option \<Rightarrow> string \<Rightarrow> string \<Rightarrow> bool" where
  "anyroad_verifyWebhookHmac hmac secret body signature =
     (case truthy_string secret of
        None \<Rightarrow> False
      | Some s \<Rightarrow>
          (case timingSafeEqual (hmac s body) signature of
             Inl _ \<Rightarrow> False
           | Inr b \<Rightarrow> b))"

text \<open>The parsed request: \<open>payload.event_type\<close>, \<open>payload.type\<close>, whether \<open>payload.data\<close>
  is there, and the booking \<open>payload.data || payload\<close>.\<close>

record AnyRoadWebhook =
  aw_event_type :: "string option"
  aw_type :: "string option"
  aw_has_data :: bool
  aw_bookingData :: AnyRoadBooking

definition anyroad_audit_payload :: "string \<Rightarrow> string \<Rightarrow> json option \<Rightarrow> time option \<Rightarrow> json" where
  "anyroad_audit_payload eventType webhookId bookingId processedAt =
     JObj ([(''eventType'', JStr eventType), (''webhookId'', JStr webhookId)]
           @ opt_prop ''bookingId'' (\<lambda>j. j) bookingId
           @ opt_prop ''processedAt'' (\<lambda>t. JNum (of_int t)) processedAt)"

definition anyroad_POST ::
  "(string \<Rightarrow> string \<Rightarrow> string) \<Rightarrow> (string \<Rightarrow> AnyRoadWebhook option) \<Rightarrow> string option
   \<Rightarrow> time \<Rightarrow> request \<Rightarrow> warehouse \<Rightarrow> response \<times> warehouse" where
  "anyroad_POST hmac parse ANYROAD_WEBHOOK_SECRET now req w =
     (let body = rq_body req
      in case truthy_string (header req ''x-anyroad-signature'') of
           None \<Rightarrow> (json_response 401 (JObj [(''error'', JStr ''Missing signature'')]), w)
         | Some signature \<Rightarrow>
             if \<not> anyroad_verifyWebhookHmac hmac ANYROAD_WEBHOOK_SECRET body signature
             then (json_response 401 (JObj [(''error'', JStr ''Invalid signature'')]), w)
             else
               (case parse body of
                  None \<Rightarrow> (json_response 500 (JObj [(''error'', JStr ''Internal server error'')]), w)
                | Some payload \<Rightarrow>
                    (let eventType = (case truthy_string (aw_event_type payload) of
                                        Some t \<Rightarrow> t | None \<Rightarrow> or_unknown (aw_type payload));
                         webhookId = or_unknown (header req ''x-anyroad-webhook-id'');
                         bookingData = aw_bookingData payload;
                         bookingId = map_of (ab_json bookingData) ''id'';
                         (auditId, w1) =
                           audit_create now ''anyroad'' (''webhook_'' @ eventType) ''processing''
                             (anyroad_audit_payload eventType webhookId
                                (if aw_has_data payload then bookingId else None) None)
                             None w;
                         (outcome, w2) =
                           (if eventType = ''booking.created'' \<or> eventType = ''booking.updated''
                            then handleBookingWebhook now bookingData w1
                            else if eventType = ''booking.cancelled''
                            then handleBookingCancellation now bookingData w1
                            else if eventType = ''booking.completed''
                            then handleBookingCompletion now bookingData w1
                            else (Inr (), w1))
                     in case outcome of
                          Inr _ \<Rightarrow>
                            (json_response 200 (JObj [(''received'', JBool True)]),
                             audit_update auditId ''success''
                               (Some (anyroad_audit_payload eventType webhookId bookingId (Some now)))
                               None w2)
                        | Inl e \<Rightarrow>
                            (json_response 500 (JObj [(''error'', JStr ''Internal server error'')]),
                             audit_update auditId ''failed'' None (Some e) w2))))"

text \<open>A request is rejected unprocessed when the answer is 401 and the warehouse, the
  audit log included, is as it was.\<close>

definition rejected_unprocessed :: "response \<times> warehouse \<Rightarrow> warehouse \<Rightarrow> bool" where
  "rejected_unprocessed r w = (rs_status (fst r) = 401 \<and> snd r = w)"

text \<open>Concrete inputs: a stand-in for the HMAC, and a refund notification for order 555.\<close>

definition toy_hmac :: "string \<Rightarrow> string \<Rightarrow> string" where
  "toy_hmac key data = key @ ''|'' @ data"

definition refund_555 :: ShopifyWebhookPayload where
  "refund_555 =
     \<lparr> wp_id = ''900'', wp_name = None, wp_order_number = None, wp_created_at = 150,
       wp_updated_at = 150, wp_total_price = None, wp_subtotal_price = None,
       wp_total_discounts = None, wp_total_tax = None, wp_refunds = None, wp_customer = None,
       wp_line_items = None, wp_transactions = None, wp_order_id = ''555'',
       wp_amount = Some 5,
       wp_json = [(''id'', JNum 900), (''order_id'', JNum 555), (''amount'', JStr ''5.00'')] \<rparr>"

text \<open>A booking used where a concrete input is wanted.\<close>

definition booking_77 :: AnyRoadBooking where
  "booking_77 =
     \<lparr> ab_id = ''77'', ab_experience_category = None,
       ab_experience_name = Some ''Distillery Tour'', ab_startsAt = 1000, ab_endsAt = None,
       ab_guests_count = Some 4, ab_total_price = Some 160, ab_add_ons_total = None,
       ab_primary_guest = None, ab_cancellation_reason = Some (JStr ''weather''),
       ab_actual_attendance = None,
       ab_json = [(''id'', JStr ''77''), (''guests_count'', JNum 4), (''total_price'', JNum 160)] \<rparr>"

text \<open>Two stored raw objects agree outside the keys \<open>ks\<close>.\<close>

definition same_outside :: "string list \<Rightarrow> event_row \<Rightarrow> event_row \<Rightarrow> bool" where
  "same_outside ks r r' =
     (fe_id r' = fe_id r
      \<and> map_of (filter (\<lambda>kv. fst kv \<notin> set ks) (fe_rawJson r'))
          = map_of (filter (\<lambda>kv. fst kv \<notin> set ks) (fe_rawJson r)))"

section \<open>Batch ingestion\<close>

text \<open>
  A calendar date (\<open>yyyy-MM-dd\<close>) is its day number; \<open>DAY\<close> is the length of a day in
  the unit of \<open>time\<close>. \<open>format\<close> gives the date of an instant, \<open>parseISO\<close> the first
  instant of a date, \<open>end_of_day\<close> the instant \<open>T23:59:59Z\<close> of a date.
\<close>

type_synonym date = int

definition DAY :: int where
  "DAY = 86400000"

definition format_date :: "time \<Rightarrow> date" where
  "format_date t = t div DAY"

definition parseISO :: "date \<Rightarrow> time" where
  "parseISO d = d * DAY"

definition addDays :: "time \<Rightarrow> int \<Rightarrow> time" where
  "addDays t n = t + n * DAY"

definition end_of_day :: "date \<Rightarrow> time" where
  "end_of_day d = d * DAY + (DAY - 1000)"

subsection \<open>The sources' APIs\<close>

text \<open>
  The calls to the platforms are parameters: each returns what the client function
  returns, or \<open>Inl\<close> of the message when the call throws.
\<close>

record PaginationInfo =
  hasNextPage :: bool
  endCursor :: "string option"

type_synonym shopify_fetch =
  "date \<Rightarrow> date \<Rightarrow> string option \<Rightarrow> string + (ShopifyOrder list \<times> PaginationInfo)"

record SquareLocation =
  loc_id :: string
  loc_name :: "string option"

record SquareSource =
  src_listLocations :: "string + SquareLocation list"
  src_fetchOrders :: "string \<Rightarrow> date \<Rightarrow> string + SquareOrder list"
  src_fetchPayments :: "string \<Rightarrow> date \<Rightarrow> string + SquarePayment list"

text \<open>\<open>getLocations\<close>: a failed call is logged and answered with the empty list.\<close>

definition getLocations :: "SquareSource \<Rightarrow> (string \<times> string) list" where
  "getLocations src =
     (case src_listLocations src of
        Inl _ \<Rightarrow> []
      | Inr locations \<Rightarrow>
          map (\<lambda>loc. (loc_id loc,
                       (case truthy_string (loc_name loc) of
                          Some n \<Rightarrow> n | None \<Rightarrow> ''Unnamed Location'')))
            locations)"

subsection \<open>Admin resync (\<open>app/api/admin/resync/route.ts\<close>)\<close>

text \<open>The loop of \<open>resyncShopify\<close>: its body is, statement for statement, that of
  \<open>upsertOrder\<close>; a throw leaves the loop.\<close>

fun resync_orders :: "time \<Rightarrow> NormalizedOrder list \<Rightarrow> nat \<Rightarrow> warehouse \<Rightarrow> (string + nat) \<times> warehouse" where
  "resync_orders now [] processedCount w = (Inr processedCount, w)"
| "resync_orders now (order # orders) processedCount w =
     (case upsertOrder now order w of
        (Inl e, w') \<Rightarrow> (Inl e, w')
      | (Inr _, w') \<Rightarrow> resync_orders now orders (Suc processedCount) w')"

definition resyncShopify :: "shopify_fetch \<Rightarrow> time \<Rightarrow> date \<Rightarrow> warehouse \<Rightarrow> (string + nat) \<times> warehouse" where
  "resyncShopify fetch now date w =
     (case fetch date date None of
        Inl e \<Rightarrow> (Inl e, w)
      | Inr (orders, pageInfo) \<Rightarrow> resync_orders now (normalizeOrders orders) 0 w)"

text \<open>The Square loop body: as above, with the bridge row's \<open>squareCustomerId\<close>.\<close>

definition square_upsert :: "time \<Rightarrow> NormalizedOrder \<Rightarrow> warehouse \<Rightarrow> (string + unit) \<times> warehouse" where
  "square_upsert now order w =
     (let w1 = (case (customerIdentity order, customerHash order) of
                  (Some ci, Some h) \<Rightarrow>
                    w \<lparr> bridgeCustomerIdentity :=
                          db_upsert bi_customerHash h
                            (\<lambda>r. r \<lparr> bi_squareCustomerId :=
                                       set_if_defined (ci_squareCustomerId ci) (bi_squareCustomerId r),
                                     bi_updatedAt := Some now \<rparr>)
                            \<lparr> bi_customerHash = h, bi_shopifyCustomerId = None,
                              bi_squareCustomerId = ci_squareCustomerId ci,
                              bi_anyroadGuestId = None, bi_updatedAt = None \<rparr>
                            (bridgeCustomerIdentity w) \<rparr>
                | _ \<Rightarrow> w);
          w2 = w1 \<lparr> factOrder :=
                      db_upsert fo_id (externalId order)
                        (\<lambda>r. (order_row_of order) \<lparr> fo_id := fo_id r, fo_updatedAt := now \<rparr>)
                        (order_row_of order)
                        (factOrder w1) \<rparr>
      in replace_lines (externalId order) (lineItems order) w2)"

fun square_resync_orders :: "time \<Rightarrow> NormalizedOrder list \<Rightarrow> nat \<Rightarrow> warehouse \<Rightarrow> (string + nat) \<times> warehouse" where
  "square_resync_orders now [] totalProcessed w = (Inr totalProcessed, w)"
| "square_resync_orders now (order # orders) totalProcessed w =
     (case square_upsert now order w of
        (Inl e, w') \<Rightarrow> (Inl e, w')
      | (Inr _, w') \<Rightarrow> square_resync_orders now orders (Suc totalProcessed) w')"

fun resync_locations ::
  "SquareSource \<Rightarrow> time \<Rightarrow> date \<Rightarrow> (string \<times> string) list \<Rightarrow> nat \<Rightarrow> warehouse \<Rightarrow> (string + nat) \<times> warehouse" where
  "resync_locations src now date [] totalProcessed w = (Inr totalProcessed, w)"
| "resync_locations src now date (location # locations) totalProcessed w =
     (let w1 = w \<lparr> dimLocation :=
                     db_upsert dl_id (''square_location_'' @ fst location)
                       (\<lambda>r. r \<lparr> dl_name := snd location, dl_channel := ''square'' \<rparr>)
                       \<lparr> dl_id = ''square_location_'' @ fst location, dl_name = snd location,
                         dl_channel = ''square'' \<rparr>
                       (dimLocation w) \<rparr>
      in case src_fetchOrders src (fst location) date of
           Inl e \<Rightarrow> (Inl e, w1)
         | Inr orders \<Rightarrow>
             (case src_fetchPayments src (fst location) date of
                Inl e \<Rightarrow> (Inl e, w1)
              | Inr payments \<Rightarrow>
                  (let paymentsMap = reconcilePaymentsToOrders orders payments;
                       normalized = square_normalizeOrders orders paymentsMap
                   in case square_resync_orders now normalized totalProcessed w1 of
                        (Inl e, w2) \<Rightarrow> (Inl e, w2)
                      | (Inr n, w2) \<Rightarrow> resync_locations src now date locations n w2)))"

definition resyncSquare :: "SquareSource \<Rightarrow> time \<Rightarrow> date \<Rightarrow> warehouse \<Rightarrow> (string + nat) \<times> warehouse" where
  "resyncSquare src now date w = resync_locations src now date (getLocations src) 0 w"

text \<open>\<open>fetchAllBookings\<close> (all pages of the day, or a throw) is a parameter.\<close>

fun resync_events :: "time \<Rightarrow> NormalizedEvent list \<Rightarrow> nat \<Rightarrow> warehouse \<Rightarrow> (string + nat) \<times> warehouse" where
  "resync_events now [] processedCount w = (Inr processedCount, w)"
| "resync_events now (event # events) processedCount w =
     (let w1 = w \<lparr> bridgeCustomerIdentity :=
                     upsert_anyroad_identity now event (bridgeCustomerIdentity w) \<rparr>;
          w2 = w1 \<lparr> factEvent :=
                      db_upsert fe_id (ne_externalId event)
                        (\<lambda>r. (event_row_of event) \<lparr> fe_id := fe_id r \<rparr>)
                        (event_row_of event) (factEvent w1) \<rparr>
      in resync_events now events (Suc processedCount) w2)"

definition resyncAnyRoad ::
  "(date \<Rightarrow> date \<Rightarrow> string + AnyRoadBooking list) \<Rightarrow> time \<Rightarrow> date \<Rightarrow> warehouse
   \<Rightarrow> (string + nat) \<times> warehouse" where
  "resyncAnyRoad fetchAllBookings now date w =
     (case fetchAllBookings date date of
        Inl e \<Rightarrow> (Inl e, w)
      | Inr bookings \<Rightarrow> resync_events now (normalizeBookings bookings) 0 w)"

text \<open>
  The admin request: its headers, and the \<open>source\<close> and \<open>date\<close> query parameters (the
  date as the day it denotes). \<open>verifyAuth\<close> compares the \<open>x-webhook-secret\<close> header with
  \<open>WEBHOOK_SECRET\<close>.
\<close>

record admin_request =
  ar_headers :: "(string \<times> string) list"
  ar_source :: "string option"
  ar_date :: "date option"

definition verifyAuth :: "string option \<Rightarrow> admin_request \<Rightarrow> bool" where
  "verifyAuth WEBHOOK_SECRET req =
     (case truthy_string WEBHOOK_SECRET of
        None \<Rightarrow> False
      | Some secret \<Rightarrow> map_of (ar_headers req) ''x-webhook-secret'' = Some secret)"

text \<open>One source's resync inside \<open>POST\<close>: the count and a \<open>success\<close> audit row, or, on a
  throw, a \<open>failed\<close> audit row and the count 0.\<close>

definition resync_and_audit ::
  "string \<Rightarrow> time \<Rightarrow> date \<Rightarrow> (warehouse \<Rightarrow> (string + nat) \<times> warehouse) \<Rightarrow> warehouse \<Rightarrow> nat \<times> warehouse" where
  "resync_and_audit source now date resync w =
     (case resync w of
        (Inr count, w') \<Rightarrow>
          (count,
           snd (audit_create now source (''resync_'' @ source) ''success''
                  (JObj [(''date'', JNum (of_int date)), (''count'', JNum (of_nat count))]) None w'))
      | (Inl e, w') \<Rightarrow>
          (0,
           snd (audit_create now source (''resync_'' @ source) ''failed''
                  (JObj [(''date'', JNum (of_int date))]) (Some e) w')))"

text \<open>\<open>POST\<close>. The refresh of the materialised view that follows the resyncs writes none
  of the tables modelled here, and its failure is only logged.\<close>

definition resync_POST ::
  "shopify_fetch \<Rightarrow> SquareSource \<Rightarrow> (date \<Rightarrow> date \<Rightarrow> string + AnyRoadBooking list) \<Rightarrow> string option
   \<Rightarrow> time \<Rightarrow> admin_request \<Rightarrow> warehouse \<Rightarrow> response \<times> warehouse" where
  "resync_POST fetch src fetchAllBookings WEBHOOK_SECRET now req w =
     (if \<not> verifyAuth WEBHOOK_SECRET req
      then (json_response 401 (JObj [(''error'', JStr ''Unauthorized'')]), w)
      else
        (let source = (case truthy_string (ar_source req) of Some s \<Rightarrow> s | None \<Rightarrow> ''all'');
             date = (case ar_date req of Some d \<Rightarrow> d | None \<Rightarrow> format_date now)
         in if source \<notin> set [''shopify'', ''square'', ''anyroad'', ''all'']
            then (json_response 400
                    (JObj [(''error'',
                            JStr ''Invalid source. Must be: shopify, square, anyroad, or all'')]), w)
            else
              (let (r1, w1) = (if source = ''all'' \<or> source = ''shopify''
                               then (case resync_and_audit ''shopify'' now date
                                            (resyncShopify fetch now date) w of
                                       (n, w') \<Rightarrow> ([(''shopify'', JNum (of_nat n))], w'))
                               else ([], w));
                   (r2, w2) = (if source = ''all'' \<or> source = ''square''
                               then (case resync_and_audit ''square'' now date
                                            (resyncSquare src now date) w1 of
                                       (n, w') \<Rightarrow> ([(''square'', JNum (of_nat n))], w'))
                               else ([], w1));
                   (r3, w3) = (if source = ''all'' \<or> source = ''anyroad''
                               then (case resync_and_audit ''anyroad'' now date
                                            (resyncAnyRoad fetchAllBookings now date) w2 of
                                       (n, w') \<Rightarrow> ([(''anyroad'', JNum (of_nat n))], w'))
                               else ([], w2))
               in (json_response 200
                     (JObj [(''success'', JBool True),
                            (''message'', JStr (''Resync completed for '' @ source)),
                            (''date'', JNum (of_int date)),
                            (''results'', JObj (r1 @ r2 @ r3)),
                            (''timestamp'', JNum (of_int now))]),
                   w3))))"

text \<open>The date a resync request is for: its \<open>date\<close> parameter, or today.\<close>

definition request_date :: "time \<Rightarrow> admin_request \<Rightarrow> date" where
  "request_date now req = (case ar_date req of Some d \<Rightarrow> d | None \<Rightarrow> format_date now)"

text \<open>A day with zero orders: the locations call succeeds, and for every location the
  orders call returns no order (and the payments call does not fail).\<close>

definition quiet_day :: "SquareSource \<Rightarrow> date \<Rightarrow> bool" where
  "quiet_day src date =
     (case src_listLocations src of
        Inl _ \<Rightarrow> False
      | Inr locations \<Rightarrow>
          list_all (\<lambda>loc. src_fetchOrders src (loc_id loc) date = Inr []
                          \<and> \<not> isl (src_fetchPayments src (loc_id loc) date)) locations)"

text \<open>Concrete Square sources: one whose locations call fails, and one with a single
  location and no orders.\<close>

definition square_down :: SquareSource where
  "square_down =
     \<lparr> src_listLocations = Inl ''503 Service Unavailable'',
       src_fetchOrders = (\<lambda>l d. Inr []), src_fetchPayments = (\<lambda>l d. Inr []) \<rparr>"

definition square_quiet :: SquareSource where
  "square_quiet =
     \<lparr> src_listLocations = Inr [\<lparr> loc_id = ''L1'', loc_name = Some ''Main'' \<rparr>],
       src_fetchOrders = (\<lambda>l d. Inr []), src_fetchPayments = (\<lambda>l d. Inr []) \<rparr>"

definition square_resync_request :: admin_request where
  "square_resync_request =
     \<lparr> ar_headers = [(''x-webhook-secret'', ''s3cret'')], ar_source = Some ''square'',
       ar_date = Some 20000 \<rparr>"

section \<open>The money invariant\<close>

definition money_ok :: "order_row \<Rightarrow> bool" where
  "money_ok r = (\<bar>fo_netTotal r - (fo_grossTotal r - fo_refundsTotal r)\<bar> \<le> 1 / 100)"




section \<open>Reconciliation (\<open>scripts/reconcile.ts\<close>)\<close>

datatype ReconciliationStatus = StatusMatch | StatusMismatch | StatusError

record ReconciliationResult =
  rr_source :: string
  rr_dateRange :: "date \<times> date"
  rr_sourceCount :: nat
  rr_warehouseCount :: nat
  rr_sourceRevenue :: rat
  rr_warehouseRevenue :: rat
  rr_countDiff :: int
  rr_revenueDiff :: rat
  rr_status :: ReconciliationStatus
  rr_details :: "string option"

text \<open>
  The three functions end with the same two object literals: the comparison of the
  totals, and the answer of the \<open>catch\<close> block. \<open>new Date(startDate)\<close> is the first instant
  of the day, and the \<open>findMany\<close> calls select the rows of a channel created (the events
  starting) between it and \<open>T23:59:59Z\<close> of the end date.
\<close>

definition compared ::
  "string \<Rightarrow> date \<Rightarrow> date \<Rightarrow> nat \<Rightarrow> rat \<Rightarrow> nat \<Rightarrow> rat \<Rightarrow> ReconciliationResult" where
  "compared source startDate endDate sourceCount sourceRevenue warehouseCount warehouseRevenue =
     (let countDiff = int warehouseCount - int sourceCount;
          revenueDiff = warehouseRevenue - sourceRevenue
      in \<lparr> rr_source = source, rr_dateRange = (startDate, endDate),
           rr_sourceCount = sourceCount, rr_warehouseCount = warehouseCount,
           rr_sourceRevenue = sourceRevenue, rr_warehouseRevenue = warehouseRevenue,
           rr_countDiff = countDiff, rr_revenueDiff = revenueDiff,
           rr_status = (if \<bar>countDiff\<bar> = 0 \<and> \<bar>revenueDiff\<bar> < 1
                        then StatusMatch else StatusMismatch),
           rr_details = None \<rparr>)"

definition caught :: "string \<Rightarrow> date \<Rightarrow> date \<Rightarrow> string \<Rightarrow> ReconciliationResult" where
  "caught source startDate endDate message =
     \<lparr> rr_source = source, rr_dateRange = (startDate, endDate),
       rr_sourceCount = 0, rr_warehouseCount = 0, rr_sourceRevenue = 0,
       rr_warehouseRevenue = 0, rr_countDiff = 0, rr_revenueDiff = 0,
       rr_status = StatusError, rr_details = Some message \<rparr>"

definition new_Date :: "date \<Rightarrow> time" where
  "new_Date d = d * DAY"

definition findMany_orders :: "string \<Rightarrow> date \<Rightarrow> date \<Rightarrow> warehouse \<Rightarrow> order_row list" where
  "findMany_orders channel startDate endDate w =
     filter (\<lambda>r. fo_channelId r = channel
                 \<and> new_Date startDate \<le> fo_createdAt r \<and> fo_createdAt r \<le> end_of_day endDate)
       (factOrder w)"


text \<open>\<open>reconcileShopify\<close> asks for the first page of the range only.\<close>

definition reconcileShopify :: "shopify_fetch \<Rightarrow> date \<Rightarrow> date \<Rightarrow> warehouse \<Rightarrow> ReconciliationResult" where
  "reconcileShopify fetch startDate endDate w =
     (case fetch startDate endDate None of
        Inl message \<Rightarrow> caught ''shopify'' startDate endDate message
      | Inr (shopifyOrders, pageInfo) \<Rightarrow>
          (let sourceCount = length shopifyOrders;
               sourceRevenue =
                 foldl (\<lambda>sum order. sum + (so_totalPrice order - so_totalRefunded order))
                   0 shopifyOrders;
               warehouseOrders = findMany_orders ''shopify'' startDate endDate w;
               warehouseCount = length warehouseOrders;
               warehouseRevenue = foldl (\<lambda>sum order. sum + fo_netTotal order) 0 warehouseOrders
           in compared ''shopify'' startDate endDate
                sourceCount sourceRevenue warehouseCount warehouseRevenue))"












section \<open>Shopify backfill (\<open>scripts/shopify-backfill.ts\<close>)\<close>

definition DATE_WINDOW_DAYS :: int where
  "DATE_WINDOW_DAYS = 7"

definition DEFAULT_LOOKBACK_DAYS :: int where
  "DEFAULT_LOOKBACK_DAYS = 90"

subsection \<open>Checkpoints\<close>

text \<open>
  A checkpoint is stored as the JSON payload of an audit row, its two dates as day
  numbers, and read back by a cast; \<open>Checkpoint_of_json\<close> reads what \<open>Checkpoint_json\<close>
  writes.
\<close>

record Checkpoint =
  cp_startDate :: date
  cp_endDate :: date
  cp_cursor :: "string option"
  cp_processedCount :: nat

definition Checkpoint_json :: "Checkpoint \<Rightarrow> json" where
  "Checkpoint_json checkpoint =
     JObj [(''startDate'', JNum (of_int (cp_startDate checkpoint))),
           (''endDate'', JNum (of_int (cp_endDate checkpoint))),
           (''cursor'', opt_json JStr (cp_cursor checkpoint)),
           (''processedCount'', JNum (of_nat (cp_processedCount checkpoint)))]"

definition json_int :: "json option \<Rightarrow> int option" where
  "json_int v = (case v of Some (JNum x) \<Rightarrow> Some \<lfloor>x\<rfloor> | _ \<Rightarrow> None)"

definition json_string :: "json option \<Rightarrow> string option" where
  "json_string v = (case v of Some (JStr s) \<Rightarrow> Some s | _ \<Rightarrow> None)"

definition Checkpoint_of_json :: "json \<Rightarrow> Checkpoint option" where
  "Checkpoint_of_json payload =
     (case payload of
        JObj props \<Rightarrow>
          (case (json_int (map_of props ''startDate''), json_int (map_of props ''endDate''),
                 json_int (map_of props ''processedCount'')) of
             (Some s, Some e, Some n) \<Rightarrow>
               Some \<lparr> cp_startDate = s, cp_endDate = e,
                      cp_cursor = json_string (map_of props ''cursor''),
                      cp_processedCount = nat n \<rparr>
           | _ \<Rightarrow> None)
      | _ \<Rightarrow> None)"

definition saveCheckpoint :: "time \<Rightarrow> Checkpoint \<Rightarrow> warehouse \<Rightarrow> warehouse" where
  "saveCheckpoint now checkpoint w =
     snd (audit_create now ''shopify'' ''backfill_checkpoint'' ''success''
            (Checkpoint_json checkpoint) None w)"

text \<open>\<open>findFirst\<close> with \<open>orderBy: { ts: 'desc' }\<close>: a row with the greatest \<open>ts\<close> (of
  several such rows, the one inserted first).\<close>

definition latest :: "audit_row list \<Rightarrow> audit_row option" where
  "latest rows =
     (case rows of
        [] \<Rightarrow> None
      | r # rs \<Rightarrow> Some (foldl (\<lambda>best x. if ia_ts best < ia_ts x then x else best) r rs))"

definition getLastCheckpoint :: "warehouse \<Rightarrow> Checkpoint option" where
  "getLastCheckpoint w =
     (case latest (filter (\<lambda>r. ia_source r = ''shopify'' \<and> ia_type r = ''backfill_checkpoint''
                                \<and> ia_status r = ''success'')
                     (ingestAudit w)) of
        None \<Rightarrow> None
      | Some lastCheckpoint \<Rightarrow> Checkpoint_of_json (ia_payload lastCheckpoint))"

subsection \<open>One date window\<close>

text \<open>
  The page loop of \<open>processDateWindow\<close>. It has no bound of its own (it ends when
  Shopify returns an empty page or a last page), so its result is optional: \<open>None\<close> is
  a run that never returns. A result is the return value or the thrown message, the
  clock and the warehouse. The clock reads \<open>now\<close> while a page is handled and a later
  instant at the next page.
\<close>

partial_function (option) processDateWindow_loop ::
  "shopify_fetch \<Rightarrow> date \<Rightarrow> date \<Rightarrow> string option \<Rightarrow> nat \<Rightarrow> time \<Rightarrow> warehouse
   \<Rightarrow> ((string + nat) \<times> time \<times> warehouse) option" where
  "processDateWindow_loop fetch startDateStr endDateStr cursor totalProcessed now w =
     (case fetch startDateStr endDateStr cursor of
        Inl e \<Rightarrow> Some (Inl e, now, w)
      | Inr (orders, pageInfo) \<Rightarrow>
          if orders = [] then Some (Inr totalProcessed, now, w)
          else
            (case batchUpsertOrders now (normalizeOrders orders) w of
               (upsertedCount, w1) \<Rightarrow>
                 (let total = totalProcessed + upsertedCount;
                      w2 = saveCheckpoint now
                             \<lparr> cp_startDate = startDateStr, cp_endDate = endDateStr,
                               cp_cursor = endCursor pageInfo, cp_processedCount = total \<rparr> w1
                  in if \<not> hasNextPage pageInfo then Some (Inr total, now + 1, w2)
                     else processDateWindow_loop fetch startDateStr endDateStr
                            (truthy_string (endCursor pageInfo)) total (now + 1) w2)))"

definition processDateWindow ::
  "shopify_fetch \<Rightarrow> time \<Rightarrow> time \<Rightarrow> string option \<Rightarrow> time \<Rightarrow> warehouse
   \<Rightarrow> ((string + nat) \<times> time \<times> warehouse) option" where
  "processDateWindow fetch startDate endDate resumeCursor now w =
     processDateWindow_loop fetch (format_date startDate) (format_date endDate)
       (truthy_string resumeCursor) 0 now w"

subsection \<open>The orchestrator\<close>

text \<open>
  The window loop of \<open>backfillShopify\<close>: every window gets the cursor of the checkpoint
  that the run started from. A throw in a window is logged as a \<open>backfill_error\<close> row
  and thrown on.
\<close>

function backfill_windows ::
  "shopify_fetch \<Rightarrow> time \<Rightarrow> string option \<Rightarrow> time \<Rightarrow> nat \<Rightarrow> nat \<Rightarrow> time \<Rightarrow> warehouse
   \<Rightarrow> ((string + nat \<times> nat) \<times> time \<times> warehouse) option" where
  "backfill_windows fetch endDate checkpointCursor currentStart totalProcessed windowCount now w =
     (if currentStart < endDate
      then
        (let windowEnd = addDays currentStart DATE_WINDOW_DAYS;
             actualEnd = (if windowEnd > endDate then endDate else windowEnd)
         in case processDateWindow fetch currentStart actualEnd checkpointCursor now w of
              None \<Rightarrow> None
            | Some (Inl e, now', w') \<Rightarrow>
                Some (Inl e, now',
                      snd (audit_create now' ''shopify'' ''backfill_error'' ''failed''
                             (JObj [(''startDate'', JNum (of_int (format_date currentStart))),
                                    (''endDate'', JNum (of_int (format_date actualEnd)))])
                             (Some e) w'))
            | Some (Inr processedCount, now', w') \<Rightarrow>
                backfill_windows fetch endDate checkpointCursor (addDays actualEnd 1)
                  (totalProcessed + processedCount) (Suc windowCount) now' w')
      else Some (Inr (totalProcessed, windowCount), now, w))"
  by pat_completeness auto

termination backfill_windows
  by (relation "measure (\<lambda>(fetch, endDate, checkpointCursor, currentStart, rest).
                            nat (endDate - currentStart))")
     (auto simp: addDays_def DATE_WINDOW_DAYS_def DAY_def)

definition backfillShopify ::
  "shopify_fetch \<Rightarrow> int option \<Rightarrow> time \<Rightarrow> warehouse \<Rightarrow> ((string + unit) \<times> warehouse) option" where
  "backfillShopify fetch lookbackDays now w =
     (let days = (case lookbackDays of
                    None \<Rightarrow> DEFAULT_LOOKBACK_DAYS
                  | Some d \<Rightarrow> if d = 0 then DEFAULT_LOOKBACK_DAYS else d);
          endDate = now;
          startDate = addDays now (- days);
          checkpoint = getLastCheckpoint w;
          currentStart = (case checkpoint of
                            Some c \<Rightarrow> parseISO (cp_endDate c) | None \<Rightarrow> startDate);
          checkpointCursor = (case checkpoint of
                                Some c \<Rightarrow> truthy_string (cp_cursor c) | None \<Rightarrow> None)
      in case backfill_windows fetch endDate checkpointCursor currentStart 0 0 now w of
           None \<Rightarrow> None
         | Some (Inl e, now', w') \<Rightarrow> Some (Inl e, w')
         | Some (Inr (totalProcessed, windowCount), now', w') \<Rightarrow>
             Some (Inr (),
                   snd (audit_create now' ''shopify'' ''backfill_complete'' ''success''
                          (JObj [(''startDate'', JNum (of_int (format_date startDate))),
                                 (''endDate'', JNum (of_int (format_date endDate))),
                                 (''totalProcessed'', JNum (of_nat totalProcessed)),
                                 (''windowCount'', JNum (of_nat windowCount))])
                          None w')))"

text \<open>
  Concrete inputs. A shop with three orders, created on days 1, 2 and 3, that serves a
  date range one order a page, the cursor being the id of the page's order; the same
  shop when the request for the page after order 2 fails; the instant of the first
  run (day 7, one o'clock), and of the second, a minute later.
\<close>

definition shop_order :: "char \<Rightarrow> int \<Rightarrow> ShopifyOrder" where
  "shop_order c day =
     order_555 \<lparr> so_id := ''gid://shopify/Order/'' @ [c], so_createdAt := day * DAY \<rparr>"

definition three_orders :: "ShopifyOrder list" where
  "three_orders = [shop_order CHR ''1'' 1, shop_order CHR ''2'' 2, shop_order CHR ''3'' 3]"

definition shop_pages :: "ShopifyOrder list \<Rightarrow> shopify_fetch" where
  "shop_pages store startDate endDate cursor =
     (let matching = filter (\<lambda>order. startDate \<le> format_date (so_createdAt order)
                                     \<and> format_date (so_createdAt order) \<le> endDate) store;
          rest = (case cursor of
                    None \<Rightarrow> matching
                  | Some c \<Rightarrow> drop 1 (dropWhile (\<lambda>order. so_id order \<noteq> c) matching))
      in Inr (take 1 rest,
              \<lparr> hasNextPage = (1 < length rest),
                endCursor = (case rest of [] \<Rightarrow> None | order # _ \<Rightarrow> Some (so_id order)) \<rparr>))"

definition shop_failing_after :: "string \<Rightarrow> ShopifyOrder list \<Rightarrow> shopify_fetch" where
  "shop_failing_after c store startDate endDate cursor =
     (if cursor = Some c then Inl ''ECONNRESET'' else shop_pages store startDate endDate cursor)"

definition first_run_at :: time where
  "first_run_at = 7 * DAY + 3600000"

definition second_run_at :: time where
  "second_run_at = 7 * DAY + 3660000"

definition interrupted_run :: "((string + unit) \<times> warehouse) option" where
  "interrupted_run =
     backfillShopify (shop_failing_after ''gid://shopify/Order/2'' three_orders) (Some 7)
       first_run_at empty_warehouse"

section \<open>Properties\<close>

lemmas js_string_defs = toLowerCase_def toLowerCase_char_def trim_def is_js_space_def

text \<open>
  Claim C3, as the code has it. Both \<open>hashPii\<close> functions return null for null and for
  the empty string, and otherwise hash the lower-cased, trimmed input, so two non-empty
  inputs that are equal after normalisation get the same hash:
  \<open>hashPii("A@B.com") = hashPii(" a@b.com ")\<close>, a leading no-break space is trimmed, and
  the capital letter U+00C9 is lower-cased to U+00E9. The function of \<open>lib/shopify.ts\<close>,
  which the adapters use, applies plain SHA-256 (first 32 hex characters); the function
  of \<open>lib/security.ts\<close> applies HMAC-SHA-256 under \<open>PII_HASH_SECRET\<close> (first 16 hex
  characters).
\<close>

theorem hashPii_normalizes_then_hashes:
  "hashPii None = None \<and> hashPii (Some []) = None
   \<and> security_hashPii e None = None \<and> security_hashPii e (Some []) = None
   \<and> hashPii (Some ''A@B.com'') = hashPii (Some '' a@b.com '')
   \<and> security_hashPii e (Some ''A@B.com'') = security_hashPii e (Some '' a@b.com '')
   \<and> hashPii (Some (CHR 0xA0 # ''a@b.com'')) = hashPii (Some ''a@b.com'')
   \<and> hashPii (Some (CHR 0xC9 # ''@b.com'')) = hashPii (Some (CHR 0xE9 # ''@b.com''))
   \<and> (v \<noteq> [] \<longrightarrow> hashPii (Some v) = Some (Substring (Sha256Hex (trim (toLowerCase v))) 0 32))
   \<and> (v \<noteq> [] \<longrightarrow> security_hashPii e (Some v)
          = Some (Substring (HmacSha256Hex (PII_HASH_SECRET e) (trim (toLowerCase v))) 0 16))
   \<and> (v \<noteq> [] \<and> w \<noteq> [] \<and> trim (toLowerCase v) = trim (toLowerCase w)
        \<longrightarrow> hashPii (Some v) = hashPii (Some w)
            \<and> security_hashPii e (Some v) = security_hashPii e (Some w))"
proof -
  have n: "trim (toLowerCase ''A@B.com'') = trim (toLowerCase '' a@b.com '')"
    by (simp add: js_string_defs)
  have s: "trim (toLowerCase (CHR 0xA0 # ''a@b.com'')) = trim (toLowerCase ''a@b.com'')"
    by (simp add: js_string_defs)
  have l: "trim (toLowerCase (CHR 0xC9 # ''@b.com'')) = trim (toLowerCase (CHR 0xE9 # ''@b.com''))"
    by (simp add: js_string_defs)
  show ?thesis
    using n s l by (simp add: hashPii_def security_hashPii_def)
qed

theorem hashPii_normalizes_then_hashes_witness:
  "''Bob@X.io '' \<noteq> [] \<and> ''bob@x.io'' \<noteq> []
   \<and> trim (toLowerCase ''Bob@X.io '') = trim (toLowerCase ''bob@x.io'')
   \<and> hashPii (Some ''Bob@X.io '') = Some (Substring (Sha256Hex ''bob@x.io'') 0 32)
   \<and> hashPii (Some ''Bob@X.io '') = hashPii (Some ''bob@x.io'')
   \<and> security_hashPii None (Some ''Bob@X.io '')
       = Some (Substring (HmacSha256Hex ''change-me-in-production'' ''bob@x.io'') 0 16)
   \<and> security_hashPii None (Some ''Bob@X.io '') = security_hashPii None (Some ''bob@x.io'')"
proof -
  have n: "trim (toLowerCase ''Bob@X.io '') = ''bob@x.io''"
    and m: "trim (toLowerCase ''bob@x.io'') = ''bob@x.io''"
    by (simp_all add: js_string_defs)
  note t = hashPii_normalizes_then_hashes [of None "''Bob@X.io ''" "''bob@x.io''"]
  have a: "hashPii (Some ''Bob@X.io '') = Some (Substring (Sha256Hex ''bob@x.io'') 0 32)"
    using t n by simp
  have b: "security_hashPii None (Some ''Bob@X.io '')
           = Some (Substring (HmacSha256Hex ''change-me-in-production'' ''bob@x.io'') 0 16)"
    using t n by (simp add: PII_HASH_SECRET_def)
  have c: "hashPii (Some ''Bob@X.io '') = hashPii (Some ''bob@x.io'')
           \<and> security_hashPii None (Some ''Bob@X.io '') = security_hashPii None (Some ''bob@x.io'')"
    using t n m by auto
  show ?thesis
    using a b c n m by simp
qed

text \<open>
  Claim C3 as stated fails twice. The adapters' \<open>hashPii\<close> is a plain, unkeyed SHA-256
  of the normalised input. And the emptiness test runs before normalisation: a single
  blank is equal to the empty string after normalisation, yet it is hashed (to the
  digest of the empty string) while the empty string gives null.
\<close>

theorem hashPii_unkeyed_and_blank_counterexample:
  "hashPii (Some ''A@B.com'') = Some (Substring (Sha256Hex ''a@b.com'') 0 32)
   \<and> trim (toLowerCase '' '') = trim (toLowerCase '''')
   \<and> hashPii (Some '' '') = Some (Substring (Sha256Hex '''') 0 32)
   \<and> hashPii (Some '''') = None
   \<and> security_hashPii None (Some '' '')
       = Some (Substring (HmacSha256Hex ''change-me-in-production'' '''') 0 16)"
  by (simp add: hashPii_def security_hashPii_def PII_HASH_SECRET_def js_string_defs)

subsection \<open>Money normalisation\<close>

















subsection \<open>Idempotent persistence\<close>

lemma find_upsert_some:
  assumes "key c = k" and "\<And>r. key (u r) = key r"
  shows "\<exists>r. db_findUnique key k (db_upsert key k u c rows) = Some r"
proof -
  have "find (\<lambda>r. key r = k) (db_upsert key k u c rows) \<noteq> None"
  proof (cases "db_findUnique key k rows")
    case None
    then show ?thesis
      unfolding find_None_iff using assms(1) by (auto simp add: db_upsert_def)
  next
    case (Some r0)
    then have "find (\<lambda>r. key r = k) rows \<noteq> None"
      by (simp add: db_findUnique_def)
    then obtain r where r: "r \<in> set rows" "key r = k"
      unfolding find_None_iff by blast
    have "find (\<lambda>r. key r = k) (map (\<lambda>r. if key r = k then u r else r) rows) \<noteq> None"
      unfolding find_None_iff using r assms(2) by auto
    with Some show ?thesis by (simp add: db_upsert_def)
  qed
  then show ?thesis by (auto simp: db_findUnique_def)
qed

lemma upsert_members:
  assumes "r \<in> set (db_upsert key k u c rows)" and "key r = k" and "\<And>r. key (u r) = key r"
  shows "r = c \<or> (\<exists>r0. r = u r0)"
  using assms
  by (auto simp: db_upsert_def db_findUnique_def find_None_iff split: option.splits if_splits)

lemma upsert_twice:
  assumes kc: "key c = k" and ku: "\<And>r. key (u r) = key r"
    and c: "u' c = stamp c" and u: "\<And>r. u' (u r) = stamp (u r)"
  shows "db_upsert key k u' c' (db_upsert key k u c rows)
         = map (\<lambda>r. if key r = k then stamp r else r) (db_upsert key k u c rows)"
proof -
  obtain r where "db_findUnique key k (db_upsert key k u c rows) = Some r"
    using find_upsert_some [OF kc ku] by blast
  then have "db_upsert key k u' c' (db_upsert key k u c rows)
             = map (\<lambda>r. if key r = k then u' r else r) (db_upsert key k u c rows)"
    by (simp add: db_upsert_def [of key k u' c'])
  also have "\<dots> = map (\<lambda>r. if key r = k then stamp r else r) (db_upsert key k u c rows)"
  proof (rule map_cong [OF refl])
    fix r assume "r \<in> set (db_upsert key k u c rows)"
    then show "(if key r = k then u' r else r) = (if key r = k then stamp r else r)"
      using upsert_members [of r key k u c rows] ku c u by auto
  qed
  finally show ?thesis .
qed

lemma identity_twice:
  "upsert_shopify_identity t2 order (upsert_shopify_identity t1 order rows)
   = map (\<lambda>r. if customerIdentity order \<noteq> None \<and> Some (bi_customerHash r) = customerHash order
               then r \<lparr> bi_updatedAt := Some t2 \<rparr> else r)
       (upsert_shopify_identity t1 order rows)"
proof (cases "customerIdentity order")
  case None
  then show ?thesis by (simp add: upsert_shopify_identity_def)
next
  case (Some ci)
  show ?thesis
  proof (cases "customerHash order")
    case None
    then show ?thesis using Some by (simp add: upsert_shopify_identity_def)
  next
    case (Some h)
    have eq: "(\<lambda>r. if bi_customerHash r = h then r\<lparr>bi_updatedAt := Some t2\<rparr> else r)
       = (\<lambda>r. if Some (bi_customerHash r) = Some h then r\<lparr>bi_updatedAt := Some t2\<rparr> else r)"
      by auto
    show ?thesis
      using \<open>customerIdentity order = Some ci\<close> Some
      apply (simp add: upsert_shopify_identity_def)
      apply (subst upsert_twice [where stamp = "\<lambda>r. r \<lparr> bi_updatedAt := Some t2 \<rparr>"])
      apply (auto simp: set_if_defined_def split: option.splits)
      done
  qed
qed

lemma order_twice:
  "db_upsert fo_id (externalId order)
      (\<lambda>r. (order_row_of order) \<lparr> fo_id := fo_id r, fo_updatedAt := t2 \<rparr>) (order_row_of order)
      (db_upsert fo_id (externalId order)
         (\<lambda>r. (order_row_of order) \<lparr> fo_id := fo_id r, fo_updatedAt := t1 \<rparr>) (order_row_of order)
         rows)
   = map (\<lambda>r. if fo_id r = externalId order then r \<lparr> fo_updatedAt := t2 \<rparr> else r)
       (db_upsert fo_id (externalId order)
         (\<lambda>r. (order_row_of order) \<lparr> fo_id := fo_id r, fo_updatedAt := t1 \<rparr>) (order_row_of order)
         rows)"
  by (rule upsert_twice) (simp_all add: order_row_of_def)

lemma delete_new_lines:
  "db_deleteMany (\<lambda>l. fl_orderId l = k) (db_deleteMany (\<lambda>l. fl_orderId l = k) ls @ map (line_row_of k) items)
   = db_deleteMany (\<lambda>l. fl_orderId l = k) ls"
  by (simp add: db_deleteMany_def line_row_of_def filter_empty_conv)

lemma delete_twice:
  "db_deleteMany p (db_deleteMany p ls) = db_deleteMany p ls"
  by (simp add: db_deleteMany_def)

lemma replace_lines_twice:
  "replace_lines k items (snd (replace_lines k items w)) = replace_lines k items w"
  by (auto simp: replace_lines_def Let_def db_createMany_def delete_new_lines delete_twice
      split: sum.splits)

lemma replace_lines_frame:
  "replace_lines k items (w \<lparr> factOrder := a, bridgeCustomerIdentity := b \<rparr>)
   = (fst (replace_lines k items w), (snd (replace_lines k items w)) \<lparr> factOrder := a, bridgeCustomerIdentity := b \<rparr>)"
  by (auto simp: replace_lines_def Let_def split: sum.splits)

lemma replace_lines_fields:
  "factOrder (snd (replace_lines k items w)) = factOrder w"
  "bridgeCustomerIdentity (snd (replace_lines k items w)) = bridgeCustomerIdentity w"
  by (auto simp: replace_lines_def Let_def split: sum.splits)

lemma upsertOrder_on_empty:
  "factOrder (snd (upsertOrder t order empty_warehouse)) = [order_row_of order]"
  by (simp add: upsertOrder_def replace_lines_fields db_upsert_def db_findUnique_def
      empty_warehouse_def)

lemma upsertOrder_twice_aux:
  "upsertOrder t2 order (snd (upsertOrder t1 order w))
     = (fst (upsertOrder t1 order w), restamp t2 order (snd (upsertOrder t1 order w)))"
  apply (simp add: upsertOrder_def Let_def restamp_def replace_lines_fields identity_twice
      order_twice)
  apply (simp add: replace_lines_def Let_def db_createMany_def delete_new_lines delete_twice
      split: sum.splits)
  done

lemma order_555_updatedAt: "updatedAt (normalizeOrder order_555) = 100"
  by (simp add: normalizeOrder_def order_555_def)

text \<open>
  Claim C1, as the code has it. Calling \<open>upsertOrder\<close> a second time with the same order
  returns what the first call returned and leaves the warehouse as the first call left
  it, except that the order's row, and its customer's bridge row, get the second call's
  clock reading as \<open>updatedAt\<close>. So the order-line rows are the same rows, the order
  table has the same number of rows, and its rows agree in every column but
  \<open>updatedAt\<close>.
\<close>

theorem upsertOrder_twice_restamps_only:
  "upsertOrder t2 order (snd (upsertOrder t1 order w))
     = (fst (upsertOrder t1 order w), restamp t2 order (snd (upsertOrder t1 order w)))
   \<and> factOrderLine (snd (upsertOrder t2 order (snd (upsertOrder t1 order w))))
     = factOrderLine (snd (upsertOrder t1 order w))
   \<and> length (factOrder (snd (upsertOrder t2 order (snd (upsertOrder t1 order w)))))
     = length (factOrder (snd (upsertOrder t1 order w)))
   \<and> map (\<lambda>r. r \<lparr> fo_updatedAt := 0 \<rparr>)
        (factOrder (snd (upsertOrder t2 order (snd (upsertOrder t1 order w)))))
     = map (\<lambda>r. r \<lparr> fo_updatedAt := 0 \<rparr>) (factOrder (snd (upsertOrder t1 order w)))"
proof -
  note twice = upsertOrder_twice_aux [of t2 order t1 w]
  have stamp: "(\<lambda>r. r \<lparr> fo_updatedAt := 0 \<rparr>) \<circ>
        (\<lambda>r. if fo_id r = externalId order then r \<lparr> fo_updatedAt := t2 \<rparr> else r)
      = (\<lambda>r. r \<lparr> fo_updatedAt := 0 \<rparr>)"
    by auto
  show ?thesis
    unfolding twice by (simp add: restamp_def stamp)
qed

text \<open>
  Claim C1 as stated fails: on an empty warehouse, at clock reading 200, one call stores
  the order's own \<open>updatedAt\<close> (100) and a second call overwrites it with 200, so the
  order's field values are not those of a single call.
\<close>

theorem upsertOrder_twice_differs_counterexample:
  "map fo_updatedAt (factOrder (snd (upsertOrder 200 (normalizeOrder order_555) empty_warehouse)))
     = [100]
   \<and> map fo_updatedAt (factOrder (snd (upsertOrder 200 (normalizeOrder order_555)
        (snd (upsertOrder 200 (normalizeOrder order_555) empty_warehouse))))) = [200]
   \<and> snd (upsertOrder 200 (normalizeOrder order_555)
        (snd (upsertOrder 200 (normalizeOrder order_555) empty_warehouse)))
     \<noteq> snd (upsertOrder 200 (normalizeOrder order_555) empty_warehouse)"
proof -
  let ?n = "normalizeOrder order_555"
  have once: "map fo_updatedAt (factOrder (snd (upsertOrder 200 ?n empty_warehouse))) = [100]"
    by (simp add: upsertOrder_on_empty order_row_of_def order_555_updatedAt)
  have twice: "map fo_updatedAt (factOrder (snd (upsertOrder 200 ?n
        (snd (upsertOrder 200 ?n empty_warehouse))))) = [200]"
    by (simp add: upsertOrder_twice_aux restamp_def upsertOrder_on_empty order_row_of_def)
  have "[200] \<noteq> [100::int]" by simp
  with once twice show ?thesis by metis
qed

subsection \<open>Webhook ingress\<close>

lemma shopify_rejects:
  assumes "\<forall>h. truthy_string (header req ''x-shopify-hmac-sha256'') = Some h
               \<longrightarrow> \<not> verifyWebhookHmac hmac secret (rq_body req) h"
  shows "rejected_unprocessed (shopify_POST hmac parse secret now req w) w"
  using assms
  by (auto simp: shopify_POST_def rejected_unprocessed_def json_response_def Let_def
      split: option.splits)

lemma square_rejects:
  assumes "\<forall>h. truthy_string (header req ''x-square-hmacsha256-signature'') = Some h
               \<longrightarrow> \<not> verifyWebhookSignature hmac secret (rq_body req) h url"
  shows "rejected_unprocessed (square_POST hmac parse api secret url now req w) w"
  using assms
  by (auto simp: square_POST_def rejected_unprocessed_def json_response_def Let_def
      split: option.splits)

lemma anyroad_rejects:
  assumes "\<forall>h. truthy_string (header req ''x-anyroad-signature'') = Some h
               \<longrightarrow> \<not> anyroad_verifyWebhookHmac hmac secret (rq_body req) h"
  shows "rejected_unprocessed (anyroad_POST hmac parse secret now req w) w"
  using assms
  by (auto simp: anyroad_POST_def rejected_unprocessed_def json_response_def Let_def
      split: option.splits)

lemma verify_other_mac:
  "hmac s body \<noteq> sig \<Longrightarrow> \<not> verifyWebhookHmac hmac (Some s) body sig"
  "hmac s (url @ body) \<noteq> sig \<Longrightarrow> \<not> verifyWebhookSignature hmac (Some s) body sig url"
  "hmac s body \<noteq> sig \<Longrightarrow> \<not> anyroad_verifyWebhookHmac hmac (Some s) body sig"
  by (auto simp: verifyWebhookHmac_def verifyWebhookSignature_def anyroad_verifyWebhookHmac_def
      timingSafeEqual_def truthy_string_def split: option.splits if_splits)

lemma fold_max_ge: "a \<le> fold max xs (a::nat)"
  by (induction xs arbitrary: a) (auto intro: order_trans [OF max.cobounded2])

lemma fold_max_mem: "x \<in> set xs \<Longrightarrow> x \<le> fold max xs (a::nat)"
proof (induction xs arbitrary: a)
  case Nil then show ?case by simp
next
  case (Cons y ys)
  then show ?case
    using fold_max_ge [of "max y a" ys] by auto
qed

lemma fresh_audit_id_new: "r \<in> set rows \<Longrightarrow> ia_id r \<noteq> fresh_audit_id rows"
  using fold_max_mem [of "ia_id r" "map ia_id rows" 0] by (auto simp: fresh_audit_id_def)

lemma audit_update_created:
  assumes "audit_create now source type status payload error w = (i, w1)"
    and "ingestAudit w2 = ingestAudit w1"
  shows "audit_update i status' payload' error' w2
         = w2 \<lparr> ingestAudit := ingestAudit w @
                  [\<lparr> ia_id = i, ia_source = source, ia_type = type, ia_status = status',
                     ia_payload = (case payload' of None \<Rightarrow> payload | Some p \<Rightarrow> p),
                     ia_error = set_if_defined error' error, ia_ts = now \<rparr>] \<rparr>"
proof -
  have i: "i = fresh_audit_id (ingestAudit w)"
    and w1: "ingestAudit w1 = ingestAudit w @
                  [\<lparr> ia_id = i, ia_source = source, ia_type = type, ia_status = status,
                     ia_payload = payload, ia_error = error, ia_ts = now \<rparr>]"
    using assms(1) by (auto simp: audit_create_def Let_def)
  have "map (\<lambda>r. if ia_id r = i then f r else r) (ingestAudit w) = ingestAudit w" for f
    using fresh_audit_id_new [of _ "ingestAudit w"] unfolding i
    by (induction "ingestAudit w") (auto simp: map_idI)
  then show ?thesis
    by (simp add: audit_update_def assms(2) w1 split: option.splits)
qed

text \<open>
  Claim C8. On each of the three webhook routes, a request whose signature header is
  missing (or empty) or fails verification is answered 401 and nothing is processed: the
  warehouse, audit log included, is unchanged. In particular a request that carries the
  signature of another body \<open>body0\<close> is rejected, as long as the HMAC tells the two
  bodies apart.
\<close>

theorem unverified_webhook_is_rejected_unprocessed:
  "((\<forall>h. truthy_string (header req ''x-shopify-hmac-sha256'') = Some h
          \<longrightarrow> \<not> verifyWebhookHmac hmac secret (rq_body req) h)
      \<longrightarrow> rejected_unprocessed (shopify_POST hmac parse_shopify secret now req w) w)
   \<and> ((\<forall>h. truthy_string (header req ''x-square-hmacsha256-signature'') = Some h
          \<longrightarrow> \<not> verifyWebhookSignature hmac secret (rq_body req) h url)
      \<longrightarrow> rejected_unprocessed (square_POST hmac parse_square api secret url now req w) w)
   \<and> ((\<forall>h. truthy_string (header req ''x-anyroad-signature'') = Some h
          \<longrightarrow> \<not> anyroad_verifyWebhookHmac hmac secret (rq_body req) h)
      \<longrightarrow> rejected_unprocessed (anyroad_POST hmac parse_anyroad secret now req w) w)
   \<and> (header req ''x-shopify-hmac-sha256'' = Some (hmac s body0)
        \<and> hmac s (rq_body req) \<noteq> hmac s body0
      \<longrightarrow> rejected_unprocessed (shopify_POST hmac parse_shopify (Some s) now req w) w)
   \<and> (header req ''x-square-hmacsha256-signature'' = Some (hmac s (url @ body0))
        \<and> hmac s (url @ rq_body req) \<noteq> hmac s (url @ body0)
      \<longrightarrow> rejected_unprocessed (square_POST hmac parse_square api (Some s) url now req w) w)
   \<and> (header req ''x-anyroad-signature'' = Some (hmac s body0)
        \<and> hmac s (rq_body req) \<noteq> hmac s body0
      \<longrightarrow> rejected_unprocessed (anyroad_POST hmac parse_anyroad (Some s) now req w) w)"
proof (intro conjI impI)
  assume "\<forall>h. truthy_string (header req ''x-shopify-hmac-sha256'') = Some h
          \<longrightarrow> \<not> verifyWebhookHmac hmac secret (rq_body req) h"
  then show "rejected_unprocessed (shopify_POST hmac parse_shopify secret now req w) w"
    by (rule shopify_rejects)
next
  assume "\<forall>h. truthy_string (header req ''x-square-hmacsha256-signature'') = Some h
          \<longrightarrow> \<not> verifyWebhookSignature hmac secret (rq_body req) h url"
  then show "rejected_unprocessed (square_POST hmac parse_square api secret url now req w) w"
    by (rule square_rejects)
next
  assume "\<forall>h. truthy_string (header req ''x-anyroad-signature'') = Some h
          \<longrightarrow> \<not> anyroad_verifyWebhookHmac hmac secret (rq_body req) h"
  then show "rejected_unprocessed (anyroad_POST hmac parse_anyroad secret now req w) w"
    by (rule anyroad_rejects)
next
  assume a: "header req ''x-shopify-hmac-sha256'' = Some (hmac s body0)
        \<and> hmac s (rq_body req) \<noteq> hmac s body0"
  show "rejected_unprocessed (shopify_POST hmac parse_shopify (Some s) now req w) w"
  proof (rule shopify_rejects, intro allI impI)
    fix h assume "truthy_string (header req ''x-shopify-hmac-sha256'') = Some h"
    with a have "hmac s (rq_body req) \<noteq> h"
      by (auto simp: truthy_string_def split: if_splits)
    then show "\<not> verifyWebhookHmac hmac (Some s) (rq_body req) h"
      by (rule verify_other_mac)
  qed
next
  assume a: "header req ''x-square-hmacsha256-signature'' = Some (hmac s (url @ body0))
        \<and> hmac s (url @ rq_body req) \<noteq> hmac s (url @ body0)"
  show "rejected_unprocessed (square_POST hmac parse_square api (Some s) url now req w) w"
  proof (rule square_rejects, intro allI impI)
    fix h assume "truthy_string (header req ''x-square-hmacsha256-signature'') = Some h"
    with a have "hmac s (url @ rq_body req) \<noteq> h"
      by (auto simp: truthy_string_def split: if_splits)
    then show "\<not> verifyWebhookSignature hmac (Some s) (rq_body req) h url"
      by (rule verify_other_mac)
  qed
next
  assume a: "header req ''x-anyroad-signature'' = Some (hmac s body0)
        \<and> hmac s (rq_body req) \<noteq> hmac s body0"
  show "rejected_unprocessed (anyroad_POST hmac parse_anyroad (Some s) now req w) w"
  proof (rule anyroad_rejects, intro allI impI)
    fix h assume "truthy_string (header req ''x-anyroad-signature'') = Some h"
    with a have "hmac s (rq_body req) \<noteq> h"
      by (auto simp: truthy_string_def split: if_splits)
    then show "\<not> anyroad_verifyWebhookHmac hmac (Some s) (rq_body req) h"
      by (rule verify_other_mac)
  qed
qed

theorem unverified_webhook_is_rejected_unprocessed_witness:
  "header \<lparr> rq_headers = [(''x-shopify-topic'', ''orders/create'')], rq_body = ''[1]'' \<rparr>
      ''x-shopify-hmac-sha256'' = None
   \<and> rejected_unprocessed
        (shopify_POST toy_hmac (\<lambda>b. None) (Some ''k'') 0
           \<lparr> rq_headers = [(''x-shopify-topic'', ''orders/create'')], rq_body = ''[1]'' \<rparr>
           empty_warehouse) empty_warehouse
   \<and> header \<lparr> rq_headers = [(''x-shopify-hmac-sha256'', toy_hmac ''k'' ''[1]'')], rq_body = ''[2]'' \<rparr>
      ''x-shopify-hmac-sha256'' = Some (toy_hmac ''k'' ''[1]'')
   \<and> toy_hmac ''k'' ''[2]'' \<noteq> toy_hmac ''k'' ''[1]''
   \<and> rejected_unprocessed
        (shopify_POST toy_hmac (\<lambda>b. None) (Some ''k'') 0
           \<lparr> rq_headers = [(''x-shopify-hmac-sha256'', toy_hmac ''k'' ''[1]'')], rq_body = ''[2]'' \<rparr>
           empty_warehouse) empty_warehouse"
proof -
  let ?a = "\<lparr> rq_headers = [(''x-shopify-topic'', ''orders/create'')], rq_body = ''[1]'' \<rparr>"
  let ?b = "\<lparr> rq_headers = [(''x-shopify-hmac-sha256'', toy_hmac ''k'' ''[1]'')], rq_body = ''[2]'' \<rparr>"
  have a: "header ?a ''x-shopify-hmac-sha256'' = None"
    by (simp add: header_def)
  have b: "header ?b ''x-shopify-hmac-sha256'' = Some (toy_hmac ''k'' ''[1]'')"
    by (simp add: header_def)
  have c: "toy_hmac ''k'' ''[2]'' \<noteq> toy_hmac ''k'' ''[1]''"
    by (simp add: toy_hmac_def)
  have ra: "rejected_unprocessed (shopify_POST toy_hmac (\<lambda>b. None) (Some ''k'') 0 ?a empty_warehouse)
       empty_warehouse"
    using unverified_webhook_is_rejected_unprocessed
      [of ?a toy_hmac "Some ''k''" "\<lambda>b. None" 0 empty_warehouse, THEN conjunct1] a
    by (simp add: truthy_string_def)
  have rb: "rejected_unprocessed (shopify_POST toy_hmac (\<lambda>b. None) (Some ''k'') 0 ?b empty_warehouse)
       empty_warehouse"
    using unverified_webhook_is_rejected_unprocessed
      [of ?b toy_hmac _ "\<lambda>b. None" 0 empty_warehouse _ _ _ _ "''k''" "''[1]''"] b c
    by simp
  from a b c ra rb show ?thesis by simp
qed

text \<open>
  Claim C9. A \<open>refunds/create\<close> webhook with a valid signature that names an order with
  no row in the warehouse: the handler returns without any write, and the request ends
  with HTTP 200 and the audit row set to \<open>success\<close>; no other table changes.
\<close>

theorem refund_for_unknown_order_is_dropped_as_success:
  assumes "truthy_string (header req ''x-shopify-hmac-sha256'') = Some h"
    and "verifyWebhookHmac hmac secret (rq_body req) h"
    and "parse (rq_body req) = Some payload"
    and "header req ''x-shopify-topic'' = Some ''refunds/create''"
    and "db_findUnique fo_id (''shopify_order_'' @ wp_order_id payload) (factOrder w) = None"
  shows "handleRefundWebhook now payload w = (Inr (), w)
     \<and> shopify_POST hmac parse secret now req w
       = (json_response 200 (JObj [(''received'', JBool True)]),
          w \<lparr> ingestAudit := ingestAudit w @
                [\<lparr> ia_id = fresh_audit_id (ingestAudit w), ia_source = ''shopify'',
                   ia_type = ''webhook_refunds/create'', ia_status = ''success'',
                   ia_payload = shopify_audit_payload (Some ''refunds/create'')
                                  (or_unknown (header req ''x-shopify-webhook-id'')) payload (Some now),
                   ia_error = None, ia_ts = now \<rparr>] \<rparr>)"
proof -
  have h: "handleRefundWebhook now payload w' = (Inr (), w')" if "factOrder w' = factOrder w" for w'
    using assms(5) that by (simp add: handleRefundWebhook_def Let_def)
  obtain i w1 where c: "audit_create now ''shopify'' (webhook_type (Some ''refunds/create'')) ''processing''
          (shopify_audit_payload (Some ''refunds/create'')
             (or_unknown (header req ''x-shopify-webhook-id'')) payload None) None w = (i, w1)"
    by fastforce
  have w1: "factOrder w1 = factOrder w" and i: "i = fresh_audit_id (ingestAudit w)"
    and w1': "w1 = w \<lparr> ingestAudit := ingestAudit w1 \<rparr>"
    using c by (auto simp: audit_create_def Let_def)
  have u: "audit_update i ''success'' (Some p) None w1
      = w \<lparr> ingestAudit := ingestAudit w @
                [\<lparr> ia_id = i, ia_source = ''shopify'',
                   ia_type = webhook_type (Some ''refunds/create''), ia_status = ''success'',
                   ia_payload = p, ia_error = None, ia_ts = now \<rparr>] \<rparr>" for p
    by (subst audit_update_created [OF c refl], subst (1) w1') (simp add: set_if_defined_def)
  show ?thesis
    using assms(1-4) h [OF refl] h [OF w1] c u
    by (simp add: shopify_POST_def Let_def i webhook_type_def)
qed


theorem refund_for_unknown_order_is_dropped_as_success_witness:
  "shopify_POST toy_hmac (\<lambda>b. Some refund_555) (Some ''k'') 7
     \<lparr> rq_headers = [(''x-shopify-topic'', ''refunds/create''),
                     (''x-shopify-hmac-sha256'', toy_hmac ''k'' ''[1]'')],
       rq_body = ''[1]'' \<rparr> empty_warehouse
   = (json_response 200 (JObj [(''received'', JBool True)]),
      empty_warehouse \<lparr> ingestAudit :=
        [\<lparr> ia_id = 1, ia_source = ''shopify'', ia_type = ''webhook_refunds/create'',
           ia_status = ''success'',
           ia_payload = JObj [(''topic'', JStr ''refunds/create''), (''webhookId'', JStr ''unknown''),
                              (''orderId'', JNum 900), (''processedAt'', JNum 7)],
           ia_error = None, ia_ts = 7 \<rparr>] \<rparr>)"
proof -
  let ?req = "\<lparr> rq_headers = [(''x-shopify-topic'', ''refunds/create''),
                     (''x-shopify-hmac-sha256'', toy_hmac ''k'' ''[1]'')],
       rq_body = ''[1]'' \<rparr>"
  have 1: "truthy_string (header ?req ''x-shopify-hmac-sha256'') = Some (toy_hmac ''k'' ''[1]'')"
    by (simp add: header_def truthy_string_def toy_hmac_def)
  have 2: "verifyWebhookHmac toy_hmac (Some ''k'') (rq_body ?req) (toy_hmac ''k'' ''[1]'')"
    by (simp add: verifyWebhookHmac_def truthy_string_def timingSafeEqual_def)
  have 3: "(\<lambda>b. Some refund_555) (rq_body ?req) = Some refund_555"
    by simp
  have 4: "header ?req ''x-shopify-topic'' = Some ''refunds/create''"
    by (simp add: header_def)
  have 5: "db_findUnique fo_id (''shopify_order_'' @ wp_order_id refund_555)
             (factOrder empty_warehouse) = None"
    by (simp add: db_findUnique_def empty_warehouse_def)
  have 6: "header ?req ''x-shopify-webhook-id'' = None"
    by (simp add: header_def)
  show ?thesis
    using refund_for_unknown_order_is_dropped_as_success [OF 1 2 3 4 5, of 7, THEN conjunct2]
    by (simp add: 6 or_unknown_def truthy_string_def shopify_audit_payload_def opt_json_def
        opt_prop_def fresh_audit_id_def empty_warehouse_def refund_555_def)
qed

subsection \<open>Event updates\<close>

lemma map_of_set_prop: "map_of (set_prop k v obj) = (map_of obj)(k := v)"
  by (cases v) (simp_all add: set_prop_def update_conv' delete_conv')

lemma map_of_filter_out:
  "map_of (filter (\<lambda>kv. fst kv \<notin> set ks) al) = (\<lambda>k. if k \<in> set ks then None else map_of al k)"
  by (induction al) (auto simp: fun_eq_iff)

lemma same_outside_refl: "same_outside ks r r"
  by (simp add: same_outside_def)

lemma same_outside_iff:
  "same_outside ks r r' \<longleftrightarrow>
     fe_id r' = fe_id r \<and> (\<forall>k. k \<notin> set ks \<longrightarrow> map_of (fe_rawJson r') k = map_of (fe_rawJson r) k)"
  by (auto simp: same_outside_def map_of_filter_out fun_eq_iff)

lemma find_unique_row:
  assumes "distinct (map key rows)" and "find (\<lambda>r. key r = k) rows = Some e"
    and "r \<in> set rows" and "key r = k"
  shows "r = e"
proof -
  from assms(2) have "e \<in> set rows" "key e = k"
    by (auto simp: find_Some_iff)
  with assms(1,3,4) show ?thesis
    by (metis distinct_map inj_on_def)
qed

lemma list_all2_map_same:
  assumes "\<And>r. r \<in> set rows \<Longrightarrow> P r (f r)"
  shows "list_all2 P rows (map f rows)"
  using assms by (induction rows) auto

lemma normalizeBooking_id: "ne_externalId (normalizeBooking b) = ''anyroad_booking_'' @ ab_id b"
  by (simp add: normalizeBooking_def Let_def)

lemma cancellation_ids:
  "map fe_id (factEvent (snd (handleBookingCancellation now b w))) = map fe_id (factEvent w)"
  by (auto simp: handleBookingCancellation_def Let_def db_update_def comp_def
      split: option.splits intro!: map_cong)

lemma booking_ids:
  "take (length (factEvent w)) (map fe_id (factEvent (snd (handleBookingWebhook now b w))))
   = map fe_id (factEvent w)"
  by (auto simp: handleBookingWebhook_def Let_def db_upsert_def comp_def event_row_of_def
      split: option.splits intro!: map_cong)

lemma completion_ids:
  "take (length (factEvent w)) (map fe_id (factEvent (snd (handleBookingCompletion now b w))))
   = map fe_id (factEvent w)"
proof (cases "db_findUnique fe_id (''anyroad_booking_'' @ ab_id b) (factEvent w)")
  case None
  then show ?thesis by (simp add: handleBookingCompletion_def booking_ids)
next
  case (Some e)
  then show ?thesis
    by (auto simp: handleBookingCompletion_def Let_def db_update_def comp_def
      split: option.splits intro!: map_cong)
qed

lemma cancellation_merges:
  assumes "distinct (map fe_id (factEvent w))"
  shows "list_all2 (same_outside [''cancelled'', ''cancelledAt'', ''cancellationReason''])
           (factEvent w) (factEvent (snd (handleBookingCancellation now b w)))"
proof (cases "db_findUnique fe_id (''anyroad_booking_'' @ ab_id b) (factEvent w)")
  case None
  then show ?thesis
    by (simp add: handleBookingCancellation_def list_all2_refl same_outside_refl)
next
  case (Some e)
  then have f: "find (\<lambda>r. fe_id r = ''anyroad_booking_'' @ ab_id b) (factEvent w) = Some e"
    by (simp add: db_findUnique_def)
  show ?thesis
    using Some
    apply (simp add: handleBookingCancellation_def Let_def db_update_def)
    apply (rule list_all2_map_same)
    apply (auto simp: same_outside_iff map_of_set_prop dest: find_unique_row [OF assms f])
    done
qed

lemma completion_merges:
  assumes "distinct (map fe_id (factEvent w))"
  shows "list_all2 (same_outside [''completed'', ''completedAt'', ''actualAttendees''])
           (factEvent w)
           (take (length (factEvent w)) (factEvent (snd (handleBookingCompletion now b w))))"
proof (cases "db_findUnique fe_id (''anyroad_booking_'' @ ab_id b) (factEvent w)")
  case None
  then show ?thesis
    by (simp add: handleBookingCompletion_def handleBookingWebhook_def Let_def db_upsert_def
        normalizeBooking_id list_all2_refl same_outside_refl)
next
  case (Some e)
  then have f: "find (\<lambda>r. fe_id r = ''anyroad_booking_'' @ ab_id b) (factEvent w) = Some e"
    by (simp add: db_findUnique_def)
  show ?thesis
    using Some
    apply (simp add: handleBookingCompletion_def Let_def db_update_def)
    apply (rule list_all2_map_same)
    apply (auto simp: same_outside_iff map_of_set_prop dest: find_unique_row [OF assms f])
    done
qed

lemma upsert_find_prop:
  assumes "key c = k" and "\<And>r. key (u r) = key r" and "P c" and "\<And>r0. P (u r0)"
  shows "\<exists>r. db_findUnique key k (db_upsert key k u c rows) = Some r \<and> P r"
proof -
  obtain r where r: "db_findUnique key k (db_upsert key k u c rows) = Some r"
    using find_upsert_some [OF assms(1,2)] by blast
  then have "r \<in> set (db_upsert key k u c rows)" "key r = k"
    by (auto simp: db_findUnique_def find_Some_iff)
  then have "r = c \<or> (\<exists>r0. r = u r0)"
    using upsert_members [of r key k u c rows] assms(2) by blast
  with assms(3,4) have "P r" by blast
  with r show ?thesis by blast
qed

lemma booking_replaces_raw:
  "map_option fe_rawJson
     (db_findUnique fe_id (''anyroad_booking_'' @ ab_id b)
        (factEvent (snd (handleBookingWebhook now b w)))) = Some (ab_json b)"
proof -
  let ?n = "normalizeBooking b"
  have "\<exists>r. db_findUnique fe_id (ne_externalId ?n)
          (db_upsert fe_id (ne_externalId ?n)
             (\<lambda>r. (event_row_of ?n) \<lparr> fe_id := fe_id r, fe_externalId := fe_externalId r,
                                      fe_customerHash := fe_customerHash r \<rparr>)
             ((event_row_of ?n) \<lparr> fe_externalId := None, fe_customerHash := None \<rparr>)
             (factEvent w)) = Some r \<and> fe_rawJson r = ab_json b"
    by (rule upsert_find_prop) (simp_all add: event_row_of_def normalizeBooking_def Let_def)
  then show ?thesis
    unfolding normalizeBooking_id [symmetric]
    by (auto simp: handleBookingWebhook_def Let_def)
qed

lemma booking_on_empty:
  "factEvent (snd (handleBookingWebhook now b empty_warehouse))
   = [(event_row_of (normalizeBooking b)) \<lparr> fe_externalId := None, fe_customerHash := None \<rparr>]"
  by (simp add: handleBookingWebhook_def Let_def db_upsert_def db_findUnique_def
      empty_warehouse_def)

text \<open>
  Claim C7, as the code has it. No booking update deletes an event row: the ids of the
  rows that were there are still there, in place. A cancellation or a completion merges
  its annotations into the stored raw object: every key other than the three the update
  writes keeps its value (ids being unique, as the primary key makes them). A booking
  created or updated webhook instead stores the new booking payload as the raw object.
\<close>

theorem booking_updates_keep_rows_and_merge_annotations:
  "map fe_id (factEvent (snd (handleBookingCancellation now b w))) = map fe_id (factEvent w)
   \<and> take (length (factEvent w)) (map fe_id (factEvent (snd (handleBookingCompletion now b w))))
       = map fe_id (factEvent w)
   \<and> take (length (factEvent w)) (map fe_id (factEvent (snd (handleBookingWebhook now b w))))
       = map fe_id (factEvent w)
   \<and> (distinct (map fe_id (factEvent w)) \<longrightarrow>
        list_all2 (same_outside [''cancelled'', ''cancelledAt'', ''cancellationReason''])
          (factEvent w) (factEvent (snd (handleBookingCancellation now b w)))
        \<and> list_all2 (same_outside [''completed'', ''completedAt'', ''actualAttendees''])
            (factEvent w)
            (take (length (factEvent w)) (factEvent (snd (handleBookingCompletion now b w)))))
   \<and> map_option fe_rawJson
        (db_findUnique fe_id (''anyroad_booking_'' @ ab_id b)
           (factEvent (snd (handleBookingWebhook now b w)))) = Some (ab_json b)"
  using cancellation_ids [of now b w] completion_ids [of w now b] booking_ids [of w now b]
    cancellation_merges [of w now b] completion_merges [of w now b]
    booking_replaces_raw [of b now w]
  by blast

theorem booking_updates_keep_rows_and_merge_annotations_witness:
  "distinct (map fe_id (factEvent (snd (handleBookingWebhook 1 booking_77 empty_warehouse))))
   \<and> list_all2 (same_outside [''cancelled'', ''cancelledAt'', ''cancellationReason''])
        (factEvent (snd (handleBookingWebhook 1 booking_77 empty_warehouse)))
        (factEvent (snd (handleBookingCancellation 2 booking_77
           (snd (handleBookingWebhook 1 booking_77 empty_warehouse)))))
   \<and> list_all2 (same_outside [''completed'', ''completedAt'', ''actualAttendees''])
        (factEvent (snd (handleBookingWebhook 1 booking_77 empty_warehouse)))
        (take (length (factEvent (snd (handleBookingWebhook 1 booking_77 empty_warehouse))))
           (factEvent (snd (handleBookingCompletion 2 booking_77
              (snd (handleBookingWebhook 1 booking_77 empty_warehouse))))))"
proof -
  have d: "distinct (map fe_id (factEvent (snd (handleBookingWebhook 1 booking_77 empty_warehouse))))"
    by (simp add: booking_on_empty)
  from d booking_updates_keep_rows_and_merge_annotations
      [of 2 booking_77 "snd (handleBookingWebhook 1 booking_77 empty_warehouse)"]
  show ?thesis by blast
qed

text \<open>
  Claim C7 as stated fails for a booking update: a booking is created, cancelled (the raw
  object gets \<open>cancelled: true\<close>) and then updated; the update stores the new payload
  as the raw object, and the \<open>cancelled\<close> annotation is gone.
\<close>

theorem booking_update_drops_annotations_counterexample:
  "map (\<lambda>r. map_of (fe_rawJson r) ''cancelled'')
      (factEvent (snd (handleBookingCancellation 2 booking_77
         (snd (handleBookingWebhook 1 booking_77 empty_warehouse))))) = [Some (JBool True)]
   \<and> map (\<lambda>r. map_of (fe_rawJson r) ''cancelled'')
      (factEvent (snd (handleBookingWebhook 3 booking_77
         (snd (handleBookingCancellation 2 booking_77
           (snd (handleBookingWebhook 1 booking_77 empty_warehouse))))))) = [None]"
  by (simp add: handleBookingCancellation_def handleBookingWebhook_def Let_def db_upsert_def
      db_update_def db_findUnique_def normalizeBooking_def event_row_of_def booking_77_def
      empty_warehouse_def set_prop_def upsert_anyroad_identity_def)

subsection \<open>Admin resync\<close>

lemma getLocations_failed: "src_listLocations src = Inl e \<Longrightarrow> getLocations src = []"
  by (simp add: getLocations_def)

lemma resyncSquare_failed:
  "src_listLocations src = Inl e \<Longrightarrow> resyncSquare src now date w = (Inr 0, w)"
  by (simp add: resyncSquare_def getLocations_failed)

lemma resync_locations_quiet:
  assumes "list_all (\<lambda>l. src_fetchOrders src (fst l) date = Inr []
                         \<and> \<not> isl (src_fetchPayments src (fst l) date)) locations"
  shows "fst (resync_locations src now date locations n w) = Inr n
       \<and> ingestAudit (snd (resync_locations src now date locations n w)) = ingestAudit w"
  using assms
proof (induction locations arbitrary: w)
  case Nil
  then show ?case by simp
next
  case (Cons l ls)
  then obtain ps where "src_fetchPayments src (fst l) date = Inr ps"
    by (cases "src_fetchPayments src (fst l) date") auto
  with Cons show ?case
    by (simp add: square_normalizeOrders_def Let_def)
qed

lemma resyncSquare_quiet:
  assumes "quiet_day src date"
  shows "fst (resyncSquare src now date w) = Inr 0
       \<and> ingestAudit (snd (resyncSquare src now date w)) = ingestAudit w"
proof -
  from assms obtain locations where l: "src_listLocations src = Inr locations"
    and q: "list_all (\<lambda>loc. src_fetchOrders src (loc_id loc) date = Inr []
                          \<and> \<not> isl (src_fetchPayments src (loc_id loc) date)) locations"
    by (auto simp: quiet_day_def split: sum.splits)
  have "list_all (\<lambda>l. src_fetchOrders src (fst l) date = Inr []
                         \<and> \<not> isl (src_fetchPayments src (fst l) date)) (getLocations src)"
    using q by (simp add: getLocations_def l list_all_iff)
  then show ?thesis
    unfolding resyncSquare_def by (rule resync_locations_quiet)
qed

lemma resync_and_audit_zero:
  assumes "fst (resync w) = Inr 0"
  shows "fst (resync_and_audit source now date resync w) = 0"
    and "ingestAudit (snd (resync_and_audit source now date resync w))
         = ingestAudit (snd (resync w)) @
           [\<lparr> ia_id = fresh_audit_id (ingestAudit (snd (resync w))), ia_source = source,
              ia_type = ''resync_'' @ source, ia_status = ''success'',
              ia_payload = JObj [(''date'', JNum (of_int date)), (''count'', JNum 0)],
              ia_error = None, ia_ts = now \<rparr>]"
  using assms
  by (cases "resync w"; simp add: resync_and_audit_def audit_create_def Let_def)+

lemma square_only:
  assumes "verifyAuth secret req" and "ar_source req = Some ''square''"
  shows "resync_POST fetch src fab secret now req w
         = (json_response 200
              (JObj [(''success'', JBool True),
                     (''message'', JStr ''Resync completed for square''),
                     (''date'', JNum (of_int (request_date now req))),
                     (''results'',
                      JObj [(''square'',
                             JNum (of_nat (fst (resync_and_audit ''square'' now (request_date now req)
                                                  (resyncSquare src now (request_date now req)) w))))]),
                     (''timestamp'', JNum (of_int now))]),
            snd (resync_and_audit ''square'' now (request_date now req)
                   (resyncSquare src now (request_date now req)) w))"
  using assms
  by (simp add: resync_POST_def Let_def truthy_string_def request_date_def split: prod.splits)

text \<open>
  Claim C10. When the Square locations call fails, \<open>getLocations\<close> returns the empty
  list and \<open>resyncSquare\<close> returns 0 without touching the warehouse; the admin resync
  for Square then answers 200 with \<open>results.square = 0\<close> and records one audit row of
  status \<open>success\<close> with count 0. A day with zero orders gets the same response and the
  same audit log.
\<close>

theorem failed_locations_call_resyncs_as_empty_success:
  "(src_listLocations src = Inl e \<longrightarrow>
      getLocations src = [] \<and> resyncSquare src now date w = (Inr 0, w))
   \<and> (src_listLocations src = Inl e \<and> verifyAuth secret req \<and> ar_source req = Some ''square'' \<longrightarrow>
        resync_POST fetch src fab secret now req w
        = (json_response 200
             (JObj [(''success'', JBool True),
                    (''message'', JStr ''Resync completed for square''),
                    (''date'', JNum (of_int (request_date now req))),
                    (''results'', JObj [(''square'', JNum 0)]),
                    (''timestamp'', JNum (of_int now))]),
           w \<lparr> ingestAudit := ingestAudit w @
                 [\<lparr> ia_id = fresh_audit_id (ingestAudit w), ia_source = ''square'',
                    ia_type = ''resync_square'', ia_status = ''success'',
                    ia_payload = JObj [(''date'', JNum (of_int (request_date now req))),
                                       (''count'', JNum 0)],
                    ia_error = None, ia_ts = now \<rparr>] \<rparr>)
        \<and> (quiet_day src' (request_date now req) \<longrightarrow>
             fst (resync_POST fetch src' fab secret now req w)
               = fst (resync_POST fetch src fab secret now req w)
             \<and> ingestAudit (snd (resync_POST fetch src' fab secret now req w))
               = ingestAudit (snd (resync_POST fetch src fab secret now req w))))"
proof (intro conjI impI)
  assume "src_listLocations src = Inl e"
  then show "getLocations src = []" "resyncSquare src now date w = (Inr 0, w)"
    by (simp_all add: getLocations_failed resyncSquare_failed)
next
  assume a: "src_listLocations src = Inl e \<and> verifyAuth secret req \<and> ar_source req = Some ''square''"
  let ?d = "request_date now req"
  have r: "resyncSquare src now ?d w = (Inr 0, w)"
    using a by (simp add: resyncSquare_failed)
  have ra: "resync_and_audit ''square'' now ?d (resyncSquare src now ?d) w
      = (0, w \<lparr> ingestAudit := ingestAudit w @
                 [\<lparr> ia_id = fresh_audit_id (ingestAudit w), ia_source = ''square'',
                    ia_type = ''resync_square'', ia_status = ''success'',
                    ia_payload = JObj [(''date'', JNum (of_int ?d)), (''count'', JNum 0)],
                    ia_error = None, ia_ts = now \<rparr>] \<rparr>)"
    by (simp add: resync_and_audit_def r audit_create_def Let_def)
  show post: "resync_POST fetch src fab secret now req w
        = (json_response 200
             (JObj [(''success'', JBool True),
                    (''message'', JStr ''Resync completed for square''),
                    (''date'', JNum (of_int ?d)),
                    (''results'', JObj [(''square'', JNum 0)]),
                    (''timestamp'', JNum (of_int now))]),
           w \<lparr> ingestAudit := ingestAudit w @
                 [\<lparr> ia_id = fresh_audit_id (ingestAudit w), ia_source = ''square'',
                    ia_type = ''resync_square'', ia_status = ''success'',
                    ia_payload = JObj [(''date'', JNum (of_int ?d)), (''count'', JNum 0)],
                    ia_error = None, ia_ts = now \<rparr>] \<rparr>)"
    using a by (simp add: square_only ra)
  {
    assume q: "quiet_day src' ?d"
    note z = resyncSquare_quiet [OF q, of now w]
    have f: "fst (resync_and_audit ''square'' now ?d (resyncSquare src' now ?d) w) = 0"
      and l: "ingestAudit (snd (resync_and_audit ''square'' now ?d (resyncSquare src' now ?d) w))
         = ingestAudit w @
           [\<lparr> ia_id = fresh_audit_id (ingestAudit w), ia_source = ''square'',
              ia_type = ''resync_square'', ia_status = ''success'',
              ia_payload = JObj [(''date'', JNum (of_int ?d)), (''count'', JNum 0)],
              ia_error = None, ia_ts = now \<rparr>]"
      using resync_and_audit_zero [of "resyncSquare src' now ?d" w "''square''" now ?d] z
      by simp_all
    show "fst (resync_POST fetch src' fab secret now req w)
            = fst (resync_POST fetch src fab secret now req w)"
      using a by (simp add: post square_only [of secret req fetch src'] f)
    show "ingestAudit (snd (resync_POST fetch src' fab secret now req w))
            = ingestAudit (snd (resync_POST fetch src fab secret now req w))"
      using a by (simp add: post square_only [of secret req fetch src'] l)
  }
qed

theorem failed_locations_call_resyncs_as_empty_success_witness:
  "src_listLocations square_down = Inl ''503 Service Unavailable''
   \<and> verifyAuth (Some ''s3cret'') square_resync_request
   \<and> ar_source square_resync_request = Some ''square''
   \<and> quiet_day square_quiet (request_date 7 square_resync_request)
   \<and> resyncSquare square_down 7 20000 empty_warehouse = (Inr 0, empty_warehouse)
   \<and> resync_POST (\<lambda>s e c. Inl ''unused'') square_down (\<lambda>s e. Inl ''unused'') (Some ''s3cret'') 7
        square_resync_request empty_warehouse
      = (json_response 200
           (JObj [(''success'', JBool True),
                  (''message'', JStr ''Resync completed for square''),
                  (''date'', JNum 20000),
                  (''results'', JObj [(''square'', JNum 0)]),
                  (''timestamp'', JNum 7)]),
         empty_warehouse \<lparr> ingestAudit :=
           [\<lparr> ia_id = 1, ia_source = ''square'', ia_type = ''resync_square'',
              ia_status = ''success'',
              ia_payload = JObj [(''date'', JNum 20000), (''count'', JNum 0)],
              ia_error = None, ia_ts = 7 \<rparr>] \<rparr>)
   \<and> fst (resync_POST (\<lambda>s e c. Inl ''unused'') square_quiet (\<lambda>s e. Inl ''unused'') (Some ''s3cret'') 7
        square_resync_request empty_warehouse)
      = fst (resync_POST (\<lambda>s e c. Inl ''unused'') square_down (\<lambda>s e. Inl ''unused'') (Some ''s3cret'') 7
        square_resync_request empty_warehouse)
   \<and> ingestAudit (snd (resync_POST (\<lambda>s e c. Inl ''unused'') square_quiet (\<lambda>s e. Inl ''unused'')
        (Some ''s3cret'') 7 square_resync_request empty_warehouse))
      = ingestAudit (snd (resync_POST (\<lambda>s e c. Inl ''unused'') square_down (\<lambda>s e. Inl ''unused'')
        (Some ''s3cret'') 7 square_resync_request empty_warehouse))"
proof -
  have 1: "src_listLocations square_down = Inl ''503 Service Unavailable''"
    by (simp add: square_down_def)
  have 2: "verifyAuth (Some ''s3cret'') square_resync_request"
    by (simp add: verifyAuth_def truthy_string_def square_resync_request_def)
  have 3: "ar_source square_resync_request = Some ''square''"
    by (simp add: square_resync_request_def)
  have d: "request_date 7 square_resync_request = 20000"
    by (simp add: request_date_def square_resync_request_def)
  have 4: "quiet_day square_quiet (request_date 7 square_resync_request)"
    by (simp add: quiet_day_def square_quiet_def)
  note t = failed_locations_call_resyncs_as_empty_success
    [of square_down "''503 Service Unavailable''" 7 20000 empty_warehouse "Some ''s3cret''"
       square_resync_request "\<lambda>s e c. Inl ''unused''" "\<lambda>s e. Inl ''unused''" square_quiet]
  have 5: "resyncSquare square_down 7 20000 empty_warehouse = (Inr 0, empty_warehouse)"
    using t 1 by blast
  have 6: "resync_POST (\<lambda>s e c. Inl ''unused'') square_down (\<lambda>s e. Inl ''unused'') (Some ''s3cret'') 7
        square_resync_request empty_warehouse
      = (json_response 200
           (JObj [(''success'', JBool True),
                  (''message'', JStr ''Resync completed for square''),
                  (''date'', JNum 20000),
                  (''results'', JObj [(''square'', JNum 0)]),
                  (''timestamp'', JNum 7)]),
         empty_warehouse \<lparr> ingestAudit :=
           [\<lparr> ia_id = 1, ia_source = ''square'', ia_type = ''resync_square'',
              ia_status = ''success'',
              ia_payload = JObj [(''date'', JNum 20000), (''count'', JNum 0)],
              ia_error = None, ia_ts = 7 \<rparr>] \<rparr>)"
    using t 1 2 3 by (simp add: d fresh_audit_id_def empty_warehouse_def)
  have 7: "fst (resync_POST (\<lambda>s e c. Inl ''unused'') square_quiet (\<lambda>s e. Inl ''unused'') (Some ''s3cret'') 7
        square_resync_request empty_warehouse)
      = fst (resync_POST (\<lambda>s e c. Inl ''unused'') square_down (\<lambda>s e. Inl ''unused'') (Some ''s3cret'') 7
        square_resync_request empty_warehouse)"
    and 8: "ingestAudit (snd (resync_POST (\<lambda>s e c. Inl ''unused'') square_quiet (\<lambda>s e. Inl ''unused'')
        (Some ''s3cret'') 7 square_resync_request empty_warehouse))
      = ingestAudit (snd (resync_POST (\<lambda>s e c. Inl ''unused'') square_down (\<lambda>s e. Inl ''unused'')
        (Some ''s3cret'') 7 square_resync_request empty_warehouse))"
    using t 1 2 3 4 by blast+
  from 1 2 3 4 5 6 7 8 show ?thesis by blast
qed

subsection \<open>Net total is gross total minus refunds\<close>











lemma money_ok_row_of:
  "netTotal n = grossTotal n - refundsTotal n \<Longrightarrow> money_ok (order_row_of n)"
  by (simp add: money_ok_def order_row_of_def)








lemma audit_create_frame: "factOrder (snd (audit_create now s t st p e w)) = factOrder w"
  by (simp add: audit_create_def Let_def)

lemma audit_update_frame: "factOrder (audit_update i st p e w) = factOrder w"
  by (simp add: audit_update_def)

























subsection \<open>Reconciliation\<close>






lemma reconcileShopify_failed:
  assumes "fetch s e None = Inl message"
  shows "reconcileShopify fetch s e w = caught ''shopify'' s e message"
  using assms by (simp add: reconcileShopify_def)














subsection \<open>Shopify backfill\<close>

lemma Checkpoint_roundtrip: "Checkpoint_of_json (Checkpoint_json c) = Some c"
  by (cases "cp_cursor c")
     (simp_all add: Checkpoint_of_json_def Checkpoint_json_def json_int_def json_string_def
        opt_json_def)

lemma upsert_keys:
  assumes "key c = k" and "\<And>r. key (u r) = key r"
  shows "map key (db_upsert key k u c rows)
           = (if k \<in> set (map key rows) then map key rows else map key rows @ [k])"
proof (cases "find (\<lambda>r. key r = k) rows")
  case None
  then have "k \<notin> set (map key rows)"
    by (auto simp: find_None_iff)
  then show ?thesis
    using None assms(1) by (simp add: db_upsert_def db_findUnique_def)
next
  case (Some r)
  then have "find (\<lambda>r. key r = k) rows \<noteq> None"
    by simp
  then have "k \<in> set (map key rows)"
    unfolding find_None_iff by auto
  moreover have "map key (map (\<lambda>r. if key r = k then u r else r) rows) = map key rows"
    by (rule map_idI [THEN trans [OF map_map]] | simp add: assms(2) comp_def cong: map_cong)+
  ultimately show ?thesis
    using Some by (simp add: db_upsert_def db_findUnique_def)
qed

lemma upsertOrder_ids:
  "map fo_id (factOrder (snd (upsertOrder now order w)))
     = (if externalId order \<in> set (map fo_id (factOrder w))
        then map fo_id (factOrder w) else map fo_id (factOrder w) @ [externalId order])"
proof -
  have "map fo_id (db_upsert fo_id (externalId order)
                     (\<lambda>r. (order_row_of order) \<lparr> fo_id := fo_id r, fo_updatedAt := now \<rparr>)
                     (order_row_of order) (factOrder w))
          = (if externalId order \<in> set (map fo_id (factOrder w))
             then map fo_id (factOrder w) else map fo_id (factOrder w) @ [externalId order])"
    by (rule upsert_keys) (simp_all add: order_row_of_def)
  then show ?thesis
    by (simp add: upsertOrder_def Let_def replace_lines_fields)
qed

lemma upsertOrder_audit: "ingestAudit (snd (upsertOrder now order w)) = ingestAudit w"
  by (simp add: upsertOrder_def Let_def replace_lines_def split: sum.splits)

lemma batch_snd:
  "snd (batchUpsertOrders now (order # orders) w)
     = snd (batchUpsertOrders now orders (snd (upsertOrder now order w)))"
  by (simp split: prod.splits sum.splits)

lemma batch_audit: "ingestAudit (snd (batchUpsertOrders now orders w)) = ingestAudit w"
proof (induction orders arbitrary: w)
  case Nil
  show ?case by simp
next
  case (Cons order orders)
  show ?case
    unfolding batch_snd by (simp add: Cons.IH upsertOrder_audit)
qed

lemma batch_one_ids:
  "map fo_id (factOrder (snd (batchUpsertOrders now [order] w)))
     = (if externalId order \<in> set (map fo_id (factOrder w))
        then map fo_id (factOrder w) else map fo_id (factOrder w) @ [externalId order])"
  unfolding batch_snd by (simp add: upsertOrder_ids)

lemma saveCheckpoint_fields:
  "factOrder (saveCheckpoint now c w) = factOrder w"
  "ingestAudit (saveCheckpoint now c w)
     = ingestAudit w @ [\<lparr> ia_id = fresh_audit_id (ingestAudit w), ia_source = ''shopify'',
                           ia_type = ''backfill_checkpoint'', ia_status = ''success'',
                           ia_payload = Checkpoint_json c, ia_error = None, ia_ts = now \<rparr>]"
  by (simp_all add: saveCheckpoint_def audit_create_def Let_def)

text \<open>The page loop, a page at a time.\<close>

lemma page_throws:
  assumes "fetch s e cursor = Inl message"
  shows "processDateWindow_loop fetch s e cursor done_before now w = Some (Inl message, now, w)"
  by (subst processDateWindow_loop.simps) (simp add: assms)

lemma page_empty:
  assumes "fetch s e cursor = Inr ([], pageInfo)"
  shows "processDateWindow_loop fetch s e cursor done_before now w = Some (Inr done_before, now, w)"
  by (subst processDateWindow_loop.simps) (simp add: assms)

lemma page_last:
  assumes "fetch s e cursor = Inr (orders, pageInfo)" and "orders \<noteq> []"
    and "\<not> hasNextPage pageInfo"
  shows "processDateWindow_loop fetch s e cursor done_before now w
           = Some (Inr (done_before + fst (batchUpsertOrders now (normalizeOrders orders) w)), now + 1,
                   saveCheckpoint now
                     \<lparr> cp_startDate = s, cp_endDate = e, cp_cursor = endCursor pageInfo,
                       cp_processedCount =
                         done_before + fst (batchUpsertOrders now (normalizeOrders orders) w) \<rparr>
                     (snd (batchUpsertOrders now (normalizeOrders orders) w)))"
  by (subst processDateWindow_loop.simps) (simp add: assms Let_def case_prod_beta)

lemma page_more:
  assumes "fetch s e cursor = Inr (orders, pageInfo)" and "orders \<noteq> []"
    and "hasNextPage pageInfo"
  shows "processDateWindow_loop fetch s e cursor done_before now w
           = processDateWindow_loop fetch s e (truthy_string (endCursor pageInfo))
               (done_before + fst (batchUpsertOrders now (normalizeOrders orders) w)) (now + 1)
               (saveCheckpoint now
                  \<lparr> cp_startDate = s, cp_endDate = e, cp_cursor = endCursor pageInfo,
                    cp_processedCount =
                      done_before + fst (batchUpsertOrders now (normalizeOrders orders) w) \<rparr>
                  (snd (batchUpsertOrders now (normalizeOrders orders) w)))"
  by (subst processDateWindow_loop.simps) (simp add: assms Let_def case_prod_beta)

text \<open>In every case the checkpoint of a page is written to the warehouse that the
  page's upserts have left.\<close>

lemmas backfill_windows_eq = backfill_windows.simps

declare backfill_windows.simps [simp del]

lemma windows_end:
  assumes "\<not> currentStart < endDate"
  shows "backfill_windows fetch endDate c currentStart done_before windows now w
           = Some (Inr (done_before, windows), now, w)"
  by (subst backfill_windows_eq) (simp add: assms)

lemma windows_next:
  assumes "currentStart < endDate"
    and "actualEnd = (if addDays currentStart DATE_WINDOW_DAYS > endDate then endDate
                      else addDays currentStart DATE_WINDOW_DAYS)"
    and "processDateWindow fetch currentStart actualEnd c now w = Some (Inr n, now', w')"
  shows "backfill_windows fetch endDate c currentStart done_before windows now w
           = backfill_windows fetch endDate c (addDays actualEnd 1) (done_before + n) (Suc windows) now' w'"
  using assms(3) unfolding assms(2)
  by (subst backfill_windows_eq) (simp add: assms(1) Let_def)

lemma windows_throw:
  assumes "currentStart < endDate"
    and "actualEnd = (if addDays currentStart DATE_WINDOW_DAYS > endDate then endDate
                      else addDays currentStart DATE_WINDOW_DAYS)"
    and "processDateWindow fetch currentStart actualEnd c now w = Some (Inl message, now', w')"
  shows "backfill_windows fetch endDate c currentStart done_before windows now w
           = Some (Inl message, now',
                   snd (audit_create now' ''shopify'' ''backfill_error'' ''failed''
                          (JObj [(''startDate'', JNum (of_int (format_date currentStart))),
                                 (''endDate'', JNum (of_int (format_date actualEnd)))])
                          (Some message) w'))"
  using assms(3) unfolding assms(2)
  by (subst backfill_windows_eq) (simp add: assms(1) Let_def)

text \<open>The two shops, the clock and the ids on the inputs of the runs below.\<close>

lemma three_orders_ids:
  "map (\<lambda>order. externalId (normalizeOrder order)) three_orders
     = [''shopify_order_1'', ''shopify_order_2'', ''shopify_order_3'']"
  by (simp add: three_orders_def shop_order_def normalizeOrder_def extractShopifyId_def at_index_def
      truthy_string_def js_string_defs Let_def)

lemma shop_pages_three:
  "shop_pages three_orders 0 7 None
     = Inr ([shop_order CHR ''1'' 1],
            \<lparr> hasNextPage = True, endCursor = Some ''gid://shopify/Order/1'' \<rparr>)"
  "shop_pages three_orders 0 7 (Some ''gid://shopify/Order/1'')
     = Inr ([shop_order CHR ''2'' 2],
            \<lparr> hasNextPage = True, endCursor = Some ''gid://shopify/Order/2'' \<rparr>)"
  "shop_pages three_orders 0 7 (Some ''gid://shopify/Order/2'')
     = Inr ([shop_order CHR ''3'' 3],
            \<lparr> hasNextPage = False, endCursor = Some ''gid://shopify/Order/3'' \<rparr>)"
  "shop_pages three_orders 7 7 (Some ''gid://shopify/Order/2'')
     = Inr ([], \<lparr> hasNextPage = False, endCursor = None \<rparr>)"
  by (simp_all add: shop_pages_def three_orders_def shop_order_def format_date_def DAY_def Let_def)

lemma run_instants:
  "format_date first_run_at = 7" "format_date (addDays first_run_at (- 7)) = 0"
  "addDays (addDays first_run_at (- 7)) DATE_WINDOW_DAYS = first_run_at"
  "addDays first_run_at (- 7) < first_run_at" "\<not> addDays first_run_at 1 < first_run_at"
  "format_date second_run_at = 7" "format_date (parseISO 7) = 7"
  "parseISO 7 < second_run_at" "addDays (parseISO 7) DATE_WINDOW_DAYS > second_run_at"
  "\<not> addDays second_run_at 1 < second_run_at"
  by (simp_all add: first_run_at_def second_run_at_def format_date_def addDays_def parseISO_def
      DATE_WINDOW_DAYS_def DAY_def)

lemma getLastCheckpoint_empty: "getLastCheckpoint empty_warehouse = None"
  by (simp add: getLastCheckpoint_def latest_def empty_warehouse_def)

lemma three_orders_each:
  "externalId (normalizeOrder (shop_order CHR ''1'' 1)) = ''shopify_order_1''"
  "externalId (normalizeOrder (shop_order CHR ''2'' 2)) = ''shopify_order_2''"
  "externalId (normalizeOrder (shop_order CHR ''3'' 3)) = ''shopify_order_3''"
  by (simp_all add: three_orders_def shop_order_def normalizeOrder_def extractShopifyId_def at_index_def
      truthy_string_def js_string_defs Let_def)

lemma getLastCheckpoint_other_row:
  assumes "type \<noteq> ''backfill_checkpoint''"
  shows "getLastCheckpoint (snd (audit_create now source type status payload error w))
           = getLastCheckpoint w"
  using assms by (simp add: getLastCheckpoint_def audit_create_def Let_def)

text \<open>The first two pages of the window, with any shop that serves them as
  \<open>shop_pages three_orders\<close> does.\<close>

lemma first_two_pages:
  assumes "fetch 0 7 None = shop_pages three_orders 0 7 None"
    and "fetch 0 7 (Some ''gid://shopify/Order/1'')
           = shop_pages three_orders 0 7 (Some ''gid://shopify/Order/1'')"
  obtains n w where
    "processDateWindow fetch (addDays first_run_at (- 7)) first_run_at None first_run_at
       empty_warehouse
     = processDateWindow_loop fetch 0 7 (Some ''gid://shopify/Order/2'') n (first_run_at + 2) w"
    and "map fo_id (factOrder w) = [''shopify_order_1'', ''shopify_order_2'']"
    and "getLastCheckpoint w
           = Some \<lparr> cp_startDate = 0, cp_endDate = 7,
                    cp_cursor = Some ''gid://shopify/Order/2'', cp_processedCount = n \<rparr>"
proof -
  define b1 where
    "b1 = batchUpsertOrders first_run_at (normalizeOrders [shop_order CHR ''1'' 1]) empty_warehouse"
  define c1 where
    "c1 = \<lparr> cp_startDate = 0, cp_endDate = 7, cp_cursor = Some ''gid://shopify/Order/1'',
            cp_processedCount = 0 + fst b1 \<rparr>"
  define w1 where "w1 = saveCheckpoint first_run_at c1 (snd b1)"
  define b2 where
    "b2 = batchUpsertOrders (first_run_at + 1) (normalizeOrders [shop_order CHR ''2'' 2]) w1"
  define c2 where
    "c2 = \<lparr> cp_startDate = 0, cp_endDate = 7, cp_cursor = Some ''gid://shopify/Order/2'',
            cp_processedCount = 0 + fst b1 + fst b2 \<rparr>"
  define w2 where "w2 = saveCheckpoint (first_run_at + 1) c2 (snd b2)"
  have 1: "fetch 0 7 None
             = Inr ([shop_order CHR ''1'' 1],
                    \<lparr> hasNextPage = True, endCursor = Some ''gid://shopify/Order/1'' \<rparr>)"
    using assms(1) by (simp only: shop_pages_three)
  have 2: "fetch 0 7 (Some ''gid://shopify/Order/1'')
             = Inr ([shop_order CHR ''2'' 2],
                    \<lparr> hasNextPage = True, endCursor = Some ''gid://shopify/Order/2'' \<rparr>)"
    using assms(2) by (simp only: shop_pages_three)
  have s1: "processDateWindow_loop fetch 0 7 None 0 first_run_at empty_warehouse
              = processDateWindow_loop fetch 0 7 (Some ''gid://shopify/Order/1'') (0 + fst b1)
                  (first_run_at + 1) w1"
    using page_more [of fetch 0 7 None "[shop_order CHR ''1'' 1]"
        "\<lparr> hasNextPage = True, endCursor = Some ''gid://shopify/Order/1'' \<rparr>"
        0 first_run_at empty_warehouse] 1
    by (simp add: truthy_string_def b1_def c1_def w1_def del: batchUpsertOrders.simps)
  have s2: "processDateWindow_loop fetch 0 7 (Some ''gid://shopify/Order/1'') (0 + fst b1)
              (first_run_at + 1) w1
            = processDateWindow_loop fetch 0 7 (Some ''gid://shopify/Order/2'')
                (0 + fst b1 + fst b2) (first_run_at + 1 + 1) w2"
    using page_more [of fetch 0 7 "Some ''gid://shopify/Order/1''" "[shop_order CHR ''2'' 2]"
        "\<lparr> hasNextPage = True, endCursor = Some ''gid://shopify/Order/2'' \<rparr>"
        "0 + fst b1" "first_run_at + 1" w1] 2
    by (simp add: truthy_string_def b2_def c2_def w2_def del: batchUpsertOrders.simps)
  have run: "processDateWindow fetch (addDays first_run_at (- 7)) first_run_at None first_run_at
               empty_warehouse
             = processDateWindow_loop fetch 0 7 (Some ''gid://shopify/Order/2'')
                 (0 + fst b1 + fst b2) (first_run_at + 2) w2"
  proof -
    have e: "first_run_at + 1 + 1 = first_run_at + 2"
      by simp
    have t: "truthy_string None = None"
      by (simp add: truthy_string_def)
    show ?thesis
      unfolding processDateWindow_def run_instants t s1 s2 e by (rule refl)
  qed
  have i1: "map fo_id (factOrder w1) = [''shopify_order_1'']"
    unfolding w1_def b1_def normalizeOrders_def saveCheckpoint_fields list.map batch_one_ids
    by (simp add: three_orders_each empty_warehouse_def)
  have ids: "map fo_id (factOrder w2) = [''shopify_order_1'', ''shopify_order_2'']"
    unfolding w2_def b2_def normalizeOrders_def saveCheckpoint_fields list.map batch_one_ids
    by (simp add: three_orders_each i1)
  have a1: "ingestAudit w1
              = [\<lparr> ia_id = 1, ia_source = ''shopify'', ia_type = ''backfill_checkpoint'',
                   ia_status = ''success'', ia_payload = Checkpoint_json c1, ia_error = None,
                   ia_ts = first_run_at \<rparr>]"
    unfolding w1_def b1_def saveCheckpoint_fields batch_audit
    by (simp add: empty_warehouse_def fresh_audit_id_def)
  have a2: "ingestAudit w2
              = [\<lparr> ia_id = 1, ia_source = ''shopify'', ia_type = ''backfill_checkpoint'',
                   ia_status = ''success'', ia_payload = Checkpoint_json c1, ia_error = None,
                   ia_ts = first_run_at \<rparr>,
                 \<lparr> ia_id = 2, ia_source = ''shopify'', ia_type = ''backfill_checkpoint'',
                   ia_status = ''success'', ia_payload = Checkpoint_json c2, ia_error = None,
                   ia_ts = first_run_at + 1 \<rparr>]"
    unfolding w2_def b2_def saveCheckpoint_fields batch_audit a1
    by (simp add: fresh_audit_id_def)
  have cp: "getLastCheckpoint w2 = Some c2"
    unfolding getLastCheckpoint_def a2 by (simp add: latest_def Checkpoint_roundtrip)
  show thesis
    by (rule that [OF run ids]) (simp add: cp c2_def)
qed

text \<open>The run that nothing interrupts ingests the three orders.\<close>

lemma uninterrupted_run:
  "\<exists>w. backfillShopify (shop_pages three_orders) (Some 7) first_run_at empty_warehouse
          = Some (Inr (), w)
       \<and> map fo_id (factOrder w) = [''shopify_order_1'', ''shopify_order_2'', ''shopify_order_3'']"
proof -
  obtain n w where
    run: "processDateWindow (shop_pages three_orders) (addDays first_run_at (- 7)) first_run_at
            None first_run_at empty_warehouse
          = processDateWindow_loop (shop_pages three_orders) 0 7
              (Some ''gid://shopify/Order/2'') n (first_run_at + 2) w"
    and ids: "map fo_id (factOrder w) = [''shopify_order_1'', ''shopify_order_2'']"
    by (rule first_two_pages [of "shop_pages three_orders"]) simp_all
  define b3 where
    "b3 = batchUpsertOrders (first_run_at + 2) (normalizeOrders [shop_order CHR ''3'' 3]) w"
  define w3 where
    "w3 = saveCheckpoint (first_run_at + 2)
            \<lparr> cp_startDate = 0, cp_endDate = 7, cp_cursor = Some ''gid://shopify/Order/3'',
              cp_processedCount = n + fst b3 \<rparr> (snd b3)"
  have s3: "processDateWindow_loop (shop_pages three_orders) 0 7
              (Some ''gid://shopify/Order/2'') n (first_run_at + 2) w
            = Some (Inr (n + fst b3), first_run_at + 2 + 1, w3)"
    using page_last [of "shop_pages three_orders" 0 7 "Some ''gid://shopify/Order/2''"
        "[shop_order CHR ''3'' 3]"
        "\<lparr> hasNextPage = False, endCursor = Some ''gid://shopify/Order/3'' \<rparr>"
        n "first_run_at + 2" w]
    by (simp add: shop_pages_three b3_def w3_def del: batchUpsertOrders.simps)
  have ids3: "map fo_id (factOrder w3)
                = [''shopify_order_1'', ''shopify_order_2'', ''shopify_order_3'']"
    unfolding w3_def b3_def normalizeOrders_def saveCheckpoint_fields list.map batch_one_ids
    by (simp add: three_orders_each ids)
  have win: "backfill_windows (shop_pages three_orders) first_run_at None
               (addDays first_run_at (- 7)) 0 0 first_run_at empty_warehouse
             = Some (Inr (0 + (n + fst b3), Suc 0), first_run_at + 2 + 1, w3)"
    using windows_next [of "addDays first_run_at (- 7)" first_run_at first_run_at
        "shop_pages three_orders" None first_run_at empty_warehouse "n + fst b3"
        "first_run_at + 2 + 1" w3 0 0]
      run s3
    by (simp add: run_instants windows_end)
  show ?thesis
    using win ids3
    by (simp add: backfillShopify_def Let_def getLastCheckpoint_empty audit_create_frame)
qed

text \<open>The run whose third request fails stops with two orders ingested and the
  checkpoint of the second page as the latest.\<close>

lemma interrupted_run_result:
  "\<exists>n w. interrupted_run = Some (Inl ''ECONNRESET'', w)
       \<and> map fo_id (factOrder w) = [''shopify_order_1'', ''shopify_order_2'']
       \<and> getLastCheckpoint w
           = Some \<lparr> cp_startDate = 0, cp_endDate = 7,
                    cp_cursor = Some ''gid://shopify/Order/2'', cp_processedCount = n \<rparr>"
proof -
  let ?fetch = "shop_failing_after ''gid://shopify/Order/2'' three_orders"
  obtain n w where
    run: "processDateWindow ?fetch (addDays first_run_at (- 7)) first_run_at
            None first_run_at empty_warehouse
          = processDateWindow_loop ?fetch 0 7
              (Some ''gid://shopify/Order/2'') n (first_run_at + 2) w"
    and ids: "map fo_id (factOrder w) = [''shopify_order_1'', ''shopify_order_2'']"
    and cp: "getLastCheckpoint w
           = Some \<lparr> cp_startDate = 0, cp_endDate = 7,
                    cp_cursor = Some ''gid://shopify/Order/2'', cp_processedCount = n \<rparr>"
    by (rule first_two_pages [of ?fetch]) (simp_all add: shop_failing_after_def)
  have s3: "processDateWindow_loop ?fetch 0 7 (Some ''gid://shopify/Order/2'') n
              (first_run_at + 2) w
            = Some (Inl ''ECONNRESET'', first_run_at + 2, w)"
    by (rule page_throws) (simp add: shop_failing_after_def)
  have win: "backfill_windows ?fetch first_run_at None
               (addDays first_run_at (- 7)) 0 0 first_run_at empty_warehouse
             = Some (Inl ''ECONNRESET'', first_run_at + 2,
                     snd (audit_create (first_run_at + 2) ''shopify'' ''backfill_error''
                            ''failed''
                            (JObj [(''startDate'', JNum (of_int (format_date
                                                      (addDays first_run_at (- 7))))),
                                   (''endDate'', JNum (of_int (format_date first_run_at)))])
                            (Some ''ECONNRESET'') w))"
    using windows_throw [of "addDays first_run_at (- 7)" first_run_at first_run_at
        ?fetch None first_run_at empty_warehouse "''ECONNRESET''" "first_run_at + 2" w 0 0]
      run s3
    by (simp add: run_instants)
  show ?thesis
    unfolding interrupted_run_def
    using win ids cp
    by (simp add: backfillShopify_def Let_def getLastCheckpoint_empty audit_create_frame
        getLastCheckpoint_other_row)
qed

text \<open>A run that finds the checkpoint of the second page: it asks for day 7 only, with the
  old cursor, gets nothing and completes.\<close>

lemma resumed_run:
  assumes "getLastCheckpoint w
           = Some \<lparr> cp_startDate = 0, cp_endDate = 7,
                    cp_cursor = Some ''gid://shopify/Order/2'', cp_processedCount = n \<rparr>"
  shows "\<exists>w'. backfillShopify (shop_pages three_orders) (Some 7) second_run_at w = Some (Inr (), w')
          \<and> factOrder w' = factOrder w"
proof -
  have p: "processDateWindow (shop_pages three_orders) (parseISO 7) second_run_at
             (Some ''gid://shopify/Order/2'') second_run_at w
           = Some (Inr 0, second_run_at, w)"
    unfolding processDateWindow_def run_instants
    using page_empty [of "shop_pages three_orders" 7 7 "Some ''gid://shopify/Order/2''"
        "\<lparr> hasNextPage = False, endCursor = None \<rparr>" 0 second_run_at w]
    by (simp add: shop_pages_three truthy_string_def)
  have win: "backfill_windows (shop_pages three_orders) second_run_at
               (Some ''gid://shopify/Order/2'') (parseISO 7) 0 0 second_run_at w
             = Some (Inr (0 + 0, Suc 0), second_run_at, w)"
    using windows_next [of "parseISO 7" second_run_at second_run_at
        "shop_pages three_orders" "Some ''gid://shopify/Order/2''" second_run_at w 0
        second_run_at w 0 0] p
    by (simp add: run_instants windows_end)
  show ?thesis
    using win
    by (simp add: backfillShopify_def Let_def assms truthy_string_def audit_create_frame)
qed

text \<open>
  Claim C6, on a window of three pages. A backfill of the last seven days that nothing
  interrupts ingests orders 1, 2 and 3. A backfill whose request for the third page fails
  stops after the checkpoint of the second page, with orders 1 and 2 ingested. The
  backfill started again a minute later reads that checkpoint, starts at the checkpoint's
  end date (day 7) instead of the page after the checkpoint, passes the checkpoint's
  cursor to a query for another date range, finds nothing and completes: order 3 is
  never ingested, so the warehouse is not the one of the uninterrupted run.
\<close>

theorem resumed_backfill_skips_rest_of_window:
  "map_option (\<lambda>r. (fst r, map fo_id (factOrder (snd r))))
     (backfillShopify (shop_pages three_orders) (Some 7) first_run_at empty_warehouse)
     = Some (Inr (), [''shopify_order_1'', ''shopify_order_2'', ''shopify_order_3''])
   \<and> map_option (\<lambda>r. (fst r, map fo_id (factOrder (snd r)))) interrupted_run
       = Some (Inl ''ECONNRESET'', [''shopify_order_1'', ''shopify_order_2''])
   \<and> map_option (\<lambda>c. (cp_startDate c, cp_endDate c, cp_cursor c))
         (getLastCheckpoint (snd (the interrupted_run)))
       = Some (0, 7, Some ''gid://shopify/Order/2'')
   \<and> map_option (\<lambda>r. (fst r, map fo_id (factOrder (snd r))))
         (backfillShopify (shop_pages three_orders) (Some 7) second_run_at
            (snd (the interrupted_run)))
       = Some (Inr (), [''shopify_order_1'', ''shopify_order_2''])"
proof -
  obtain wu where
    u: "backfillShopify (shop_pages three_orders) (Some 7) first_run_at empty_warehouse
          = Some (Inr (), wu)"
    and uids: "map fo_id (factOrder wu)
                 = [''shopify_order_1'', ''shopify_order_2'', ''shopify_order_3'']"
    using uninterrupted_run by (elim exE conjE) (rule that)
  obtain n wi where
    i: "interrupted_run = Some (Inl ''ECONNRESET'', wi)"
    and iids: "map fo_id (factOrder wi) = [''shopify_order_1'', ''shopify_order_2'']"
    and cp: "getLastCheckpoint wi
               = Some \<lparr> cp_startDate = 0, cp_endDate = 7,
                        cp_cursor = Some ''gid://shopify/Order/2'', cp_processedCount = n \<rparr>"
    using interrupted_run_result by (elim exE conjE) (rule that)
  obtain wr where
    r: "backfillShopify (shop_pages three_orders) (Some 7) second_run_at wi = Some (Inr (), wr)"
    and rids: "factOrder wr = factOrder wi"
    using resumed_run [OF cp] by (elim exE conjE) (rule that)
  show ?thesis
    unfolding u i option.sel snd_conv fst_conv option.map cp r rids uids iids
    by simp
qed

end
